theory Spec2Isabelle
  imports Main "HOL-Library.Sublist" "HOL-Library.Multiset"
begin

section \<open>Strings\<close>

text \<open>
  JavaScript strings are modelled as \<open>string\<close>. \<open>String.prototype.includes\<close> is the
  search for a contiguous occurrence; \<open>String.prototype.trim\<close> removes white space (tab,
  line feed, vertical tab, form feed, carriage return, space, no-break space) from both
  ends. \<open>String.prototype.toLowerCase\<close> depends on the Unicode tables of the engine and
  is a parameter of the model, written \<open>lower\<close>: what is proved of the filter holds
  for every lower-casing function.
\<close>

fun str_includes :: "string \<Rightarrow> string \<Rightarrow> bool" where
  "str_includes [] q = (q = [])"
| "str_includes (c # s) q = (prefix q (c # s) \<or> str_includes s q)"

definition isWhiteSpace :: "char \<Rightarrow> bool" where
  "isWhiteSpace c =
     (c \<in> set [CHR 0x09, CHR 0x0A, CHR 0x0B, CHR 0x0C, CHR 0x0D, CHR 0x20, CHR 0xA0])"

definition trim :: "string \<Rightarrow> string" where
  "trim s = rev (dropWhile isWhiteSpace (rev (dropWhile isWhiteSpace s)))"

text \<open>
  The spec's wording "q is a case-insensitive substring of s": \<open>q\<close> occurs in \<open>s\<close> as a
  contiguous part once both are put in lower case. This definition follows the spec; it
  is compared below with what the code computes.
\<close>

definition ci_substring :: "(string \<Rightarrow> string) \<Rightarrow> string \<Rightarrow> string \<Rightarrow> bool" where
  "ci_substring lower q s = sublist (lower q) (lower s)"

text \<open>The spec's wording "blank": empty or made of white space only.\<close>

definition blank :: "string \<Rightarrow> bool" where
  "blank s = (\<forall>c \<in> set s. isWhiteSpace c)"

text \<open>
  What \<open>toLowerCase\<close> does on ASCII text: the letters \<open>A\<close>..\<open>Z\<close> become \<open>a\<close>..\<open>z\<close>, every other
  ASCII character stays. It stands for \<open>lower\<close> where a theorem is evaluated on the
  sample data, all of which is ASCII text.
\<close>

definition asciiLowerChar :: "char \<Rightarrow> char" where
  "asciiLowerChar c =
     (case map_of (zip ''ABCDEFGHIJKLMNOPQRSTUVWXYZ'' ''abcdefghijklmnopqrstuvwxyz'') c of
        Some l \<Rightarrow> l
      | None \<Rightarrow> c)"

definition asciiLowerCase :: "string \<Rightarrow> string" where
  "asciiLowerCase s = map asciiLowerChar s"

section \<open>Data model\<close>

text \<open>
  A comment of an entry's \<open>collaborativeEntries\<close> list. \<open>likes\<close> is optional because the
  code reads it as \<open>comment.likes || 0\<close>. Counters are JavaScript numbers; they are
  modelled as unbounded integers, which is exact below \<open>2^53\<close>.
\<close>

record comment =
  comment_id :: string
  comment_author :: string
  comment_content :: string
  likes :: "int option"
  comment_timestamp :: nat

text \<open>
  The fields of a document of the \<open>entries\<close> collection. \<open>tags\<close> and
  \<open>collaborativeEntries\<close> may be missing in a document (the code guards both reads).
\<close>

record entry_data =
  title :: string
  content :: string
  date :: string
  location :: string
  tags :: "string list option"
  privacy :: string
  entry_type :: string
  mediaUrls :: "string list"
  collaborativeEntries :: "comment list option"
  author :: string
  authorName :: string
  timestamp :: nat

text \<open>An element of the in-memory list: \<open>{ id: doc.id, ...doc.data() }\<close>.\<close>

record entry = entry_data +
  entry_id :: string

section \<open>Sorting with a comparison function\<close>

text \<open>
  A comparison function gives a number, or \<open>NaN\<close>, written \<open>None\<close>.
  \<open>Array.prototype.sort\<close> reads a \<open>NaN\<close> result as \<open>+0\<close> (the language's \<open>SortCompare\<close>).
\<close>

type_synonym 'a comparefn = "'a \<Rightarrow> 'a \<Rightarrow> int option"

definition sortCompare :: "'a comparefn \<Rightarrow> 'a \<Rightarrow> 'a \<Rightarrow> int" where
  "sortCompare comparefn x y = (case comparefn x y of None \<Rightarrow> 0 | Some v \<Rightarrow> v)"

text \<open>
  The language's "consistent comparator" for a set of values: no result is \<open>NaN\<close>, every
  value compares as equal to itself, comparing as equal is symmetric and transitive,
  and comparing as less and comparing as greater are transitive.
\<close>

definition consistentComparator :: "'a comparefn \<Rightarrow> 'a set \<Rightarrow> bool" where
  "consistentComparator comparefn S =
     ((\<forall>a \<in> S. \<forall>b \<in> S. comparefn a b \<noteq> None) \<and>
      (\<forall>a \<in> S. sortCompare comparefn a a = 0) \<and>
      (\<forall>a \<in> S. \<forall>b \<in> S. sortCompare comparefn a b = 0 \<longrightarrow> sortCompare comparefn b a = 0) \<and>
      (\<forall>a \<in> S. \<forall>b \<in> S. \<forall>c \<in> S.
         sortCompare comparefn a b = 0 \<and> sortCompare comparefn b c = 0 \<longrightarrow>
         sortCompare comparefn a c = 0) \<and>
      (\<forall>a \<in> S. \<forall>b \<in> S. \<forall>c \<in> S.
         sortCompare comparefn a b < 0 \<and> sortCompare comparefn b c < 0 \<longrightarrow>
         sortCompare comparefn a c < 0) \<and>
      (\<forall>a \<in> S. \<forall>b \<in> S. \<forall>c \<in> S.
         sortCompare comparefn a b > 0 \<and> sortCompare comparefn b c > 0 \<longrightarrow>
         sortCompare comparefn a c > 0))"

text \<open>
  \<open>Array.prototype.sort\<close> is the engine's; it is a parameter of the model, written
  \<open>arraySort\<close>. What the language promises of it: the result holds the elements of the
  array, each as often as the array does; and when the comparison function is a
  consistent comparator for them, no element of the result compares as less than an
  element in front of it. With a comparison function that is not consistent the order
  is left to the engine.
\<close>

definition conformingSort :: "('a comparefn \<Rightarrow> 'a list \<Rightarrow> 'a list) \<Rightarrow> bool" where
  "conformingSort arraySort =
     ((\<forall>comparefn xs. mset (arraySort comparefn xs) = mset xs) \<and>
      (\<forall>comparefn xs. consistentComparator comparefn (set xs) \<longrightarrow>
         sorted_wrt (\<lambda>a b. \<not> sortCompare comparefn b a < 0) (arraySort comparefn xs)))"

text \<open>
  One sort that meets these promises, the stable insertion sort: an element is placed
  before the first element it does not have to follow. It stands for \<open>arraySort\<close> where a
  theorem is evaluated on the sample data.
\<close>

fun insertBy :: "'a comparefn \<Rightarrow> 'a \<Rightarrow> 'a list \<Rightarrow> 'a list" where
  "insertBy comparefn x [] = [x]"
| "insertBy comparefn x (y # ys) =
     (if sortCompare comparefn x y \<le> 0 then x # y # ys else y # insertBy comparefn x ys)"

definition insertionSort :: "'a comparefn \<Rightarrow> 'a list \<Rightarrow> 'a list" where
  "insertionSort comparefn xs = foldr (insertBy comparefn) xs []"

section \<open>Filtering and sorting (\<open>filteredEntries\<close>)\<close>

text \<open>
  \<open>new Date(s)\<close> is a parameter \<open>parseDate\<close> of the model: it gives the time value of the
  date string, or \<open>None\<close> for an invalid date, whose time value is \<open>NaN\<close>. The comparison
  function \<open>(a, b) => new Date(b.date) - new Date(a.date)\<close> is \<open>NaN\<close> as soon as one side
  is invalid.
\<close>

definition compareDates :: "(string \<Rightarrow> int option) \<Rightarrow> ('a entry_data_scheme) comparefn" where
  "compareDates parseDate a b =
     (case (parseDate (date b), parseDate (date a)) of
        (Some tb, Some ta) \<Rightarrow> Some (tb - ta)
      | _ \<Rightarrow> None)"

definition sortByDateDescending :: "(('a entry_data_scheme) comparefn \<Rightarrow> ('a entry_data_scheme) list \<Rightarrow> ('a entry_data_scheme) list) \<Rightarrow> (string \<Rightarrow> int option) \<Rightarrow> ('a entry_data_scheme) list \<Rightarrow> ('a entry_data_scheme) list" where
  "sortByDateDescending arraySort parseDate es = arraySort (compareDates parseDate) es"

definition matchesSearch :: "(string \<Rightarrow> string) \<Rightarrow> string \<Rightarrow> ('a entry_data_scheme) \<Rightarrow> bool" where
  "matchesSearch lower searchQuery e =
     (str_includes (lower (title e)) (lower searchQuery) \<or>
      str_includes (lower (content e)) (lower searchQuery) \<or>
      (case tags e of
         None \<Rightarrow> False
       | Some ts \<Rightarrow> list_ex (\<lambda>tag. str_includes (lower tag) (lower searchQuery)) ts) \<or>
      str_includes (lower (location e)) (lower searchQuery))"

definition matchesFilter :: "string \<Rightarrow> ('a entry_data_scheme) \<Rightarrow> bool" where
  "matchesFilter filterBy e = (filterBy = ''all'' \<or> entry_type e = filterBy)"

definition filteredEntries :: "(('a entry_data_scheme) comparefn \<Rightarrow> ('a entry_data_scheme) list \<Rightarrow> ('a entry_data_scheme) list) \<Rightarrow> (string \<Rightarrow> string) \<Rightarrow> (string \<Rightarrow> int option) \<Rightarrow> ('a entry_data_scheme) list \<Rightarrow> string \<Rightarrow> string \<Rightarrow> ('a entry_data_scheme) list" where
  "filteredEntries arraySort lower parseDate es searchQuery filterBy =
     sortByDateDescending arraySort parseDate
       (filter (\<lambda>e. matchesSearch lower searchQuery e \<and> matchesFilter filterBy e) es)"

definition selected :: "(string \<Rightarrow> string) \<Rightarrow> string \<Rightarrow> string \<Rightarrow> ('a entry_data_scheme) \<Rightarrow> bool" where
  "selected lower q t e =
     ((ci_substring lower q (title e) \<or> ci_substring lower q (content e) \<or>
       (\<exists>tag \<in> set (case tags e of None \<Rightarrow> [] | Some ts \<Rightarrow> ts). ci_substring lower q tag) \<or>
       ci_substring lower q (location e)) \<and>
      (t = ''all'' \<or> entry_type e = t))"

definition notDatedAfter :: "(string \<Rightarrow> int option) \<Rightarrow> ('a entry_data_scheme) \<Rightarrow> ('a entry_data_scheme) \<Rightarrow> bool" where
  "notDatedAfter parseDate b a =
     (case (parseDate (date a), parseDate (date b)) of
        (Some ta, Some tb) \<Rightarrow> tb \<le> ta
      | _ \<Rightarrow> True)"

definition dateDescending :: "(string \<Rightarrow> int option) \<Rightarrow> ('a entry_data_scheme) list \<Rightarrow> bool" where
  "dateDescending parseDate es = sorted_wrt (\<lambda>a b. notDatedAfter parseDate b a) es"

section \<open>Decimal rendering of numbers in template strings\<close>

fun digits :: "nat \<Rightarrow> string" where
  "digits n =
     (if n < 10 then [''0123456789'' ! n]
      else digits (n div 10) @ [''0123456789'' ! (n mod 10)])"

declare digits.simps [simp del]

definition showInt :: "int \<Rightarrow> string" where
  "showInt i = (if i < 0 then ''-'' @ digits (nat (- i)) else digits (nat i))"

section \<open>The other records\<close>

text \<open>The form state \<open>formEntry\<close>; its \<open>tags\<close> is always an array.\<close>

record form_entry =
  form_title :: string
  form_content :: string
  form_date :: string
  form_location :: string
  form_tags :: "string list"
  form_privacy :: string
  form_type :: string
  form_mediaUrls :: "string list"
  form_collaborativeEntries :: "comment list"

text \<open>
  A question of the \<open>aiQuestions\<close> collection. A generated question has no \<open>answer\<close> and
  no \<open>answeredAt\<close> field until it is answered.
\<close>

record ai_question =
  question_id :: string
  question :: string
  relatedEntry :: "string option"
  question_type :: string
  answered :: bool
  answer :: "string option"
  answeredAt :: "nat option"

text \<open>
  A photo request. The three texts come from \<open>prompt(...)\<close>, which gives \<open>null\<close> when
  the dialog is cancelled.
\<close>

record photo_request_data =
  request_location :: "string option"
  request_timeframe :: "string option"
  request_description :: "string option"
  status :: string
  responses :: int
  requestedAt :: nat

record photo_request = photo_request_data +
  request_id :: string

record timeline_event =
  event_id :: string
  year :: int
  events :: "string list"
  color :: "string option"

section \<open>The remote document store\<close>

text \<open>
  The three collections the handlers write, each a map from document id to document.
\<close>

record store =
  entriesCol :: "string \<rightharpoonup> entry_data"
  aiQuestionsCol :: "string \<rightharpoonup> ai_question"
  photoRequestsCol :: "string \<rightharpoonup> photo_request_data"

text \<open>
  The calls the handlers make: \<open>addDoc\<close>, \<open>updateDoc\<close>, \<open>deleteDoc\<close>, \<open>setDoc\<close> and
  \<open>getDoc\<close>, each with the collection and the fields the handler passes.
\<close>

datatype remote_call =
    AddDocEntry entry_data
  | UpdateDocEntry string entry_data
  | DeleteDocEntry string
  | UpdateDocAnswer string string nat
  | SetDocQuestion string ai_question
  | AddDocPhotoRequest photo_request_data
  | GetDocEntry string
  | UpdateDocCollaborative string "comment list"

text \<open>
  What the store does with a call it accepts. \<open>addDoc\<close> stores the document under the
  id the store generates (\<open>newId\<close>); \<open>updateDoc\<close> replaces the given fields of an existing
  document and fails on a missing one; \<open>setDoc\<close> writes the whole document; \<open>deleteDoc\<close>
  removes it; \<open>getDoc\<close> changes nothing. \<open>Inl\<close> carries the message of the error thrown.
\<close>

fun applyCall :: "string \<Rightarrow> store \<Rightarrow> remote_call \<Rightarrow> string + store" where
  "applyCall newId st (AddDocEntry d) =
     Inr (st\<lparr>entriesCol := (entriesCol st)(newId \<mapsto> d)\<rparr>)"
| "applyCall newId st (UpdateDocEntry i d) =
     (case entriesCol st i of
        None \<Rightarrow> Inl ''No document to update''
      | Some _ \<Rightarrow> Inr (st\<lparr>entriesCol := (entriesCol st)(i \<mapsto> d)\<rparr>))"
| "applyCall newId st (DeleteDocEntry i) =
     Inr (st\<lparr>entriesCol := (entriesCol st)(i := None)\<rparr>)"
| "applyCall newId st (UpdateDocAnswer i a t) =
     (case aiQuestionsCol st i of
        None \<Rightarrow> Inl ''No document to update''
      | Some q \<Rightarrow>
          Inr (st\<lparr>aiQuestionsCol := (aiQuestionsCol st)
                 (i \<mapsto> q\<lparr>answered := True, answer := Some a, answeredAt := Some t\<rparr>)\<rparr>))"
| "applyCall newId st (SetDocQuestion i q) =
     Inr (st\<lparr>aiQuestionsCol := (aiQuestionsCol st)(i \<mapsto> q)\<rparr>)"
| "applyCall newId st (AddDocPhotoRequest d) =
     Inr (st\<lparr>photoRequestsCol := (photoRequestsCol st)(newId \<mapsto> d)\<rparr>)"
| "applyCall newId st (GetDocEntry i) = Inr st"
| "applyCall newId st (UpdateDocCollaborative i cs) =
     (case entriesCol st i of
        None \<Rightarrow> Inl ''No document to update''
      | Some e \<Rightarrow>
          Inr (st\<lparr>entriesCol := (entriesCol st)(i \<mapsto> e\<lparr>collaborativeEntries := Some cs\<rparr>)\<rparr>))"

text \<open>
  The remote side as the handlers meet it: \<open>rejects\<close> gives the message of the error
  with which a call fails (network, permission), \<open>autoId\<close> the id of the next document
  created by \<open>addDoc\<close>.
\<close>

record remote_env =
  rejects :: "remote_call \<Rightarrow> string option"
  autoId :: string

definition remoteCall :: "remote_env \<Rightarrow> store \<Rightarrow> remote_call \<Rightarrow> string + store" where
  "remoteCall R st c =
     (case rejects R c of
        Some msg \<Rightarrow> Inl msg
      | None \<Rightarrow> applyCall (autoId R) st c)"

section \<open>Application state\<close>

text \<open>
  The state of the component: one field for each \<open>useState\<close>. \<open>db\<close> and \<open>auth\<close> say
  whether the handle is set; \<open>error\<close> and \<open>selectedTimelineYear\<close> are \<open>null\<close> at the start.
\<close>

record historical_image =
  image_id :: string
  image_location :: string
  image_year :: int
  image_description :: string
  imageUrl :: string
  image_source :: string

record app_state =
  db :: bool
  auth :: bool
  userId :: "string option"
  isAuthReady :: bool
  loading :: bool
  error :: "string option"
  entries :: "entry list"
  timelineEvents :: "timeline_event list"
  aiQuestions :: "ai_question list"
  photoRequests :: "photo_request list"
  historicalImages :: "historical_image list"
  currentView :: string
  searchQuery :: string
  filterBy :: string
  selectedTimelineYear :: "int option"
  showNewEntry :: bool
  editingEntry :: "entry option"
  showFeedback :: bool
  feedbackMessage :: string
  feedbackType :: string
  formEntry :: form_entry

text \<open>
  What a handler leaves behind: the application state, the remote store, and the calls
  it made to the store, in order. A handler is taken as one step: what it sets after
  an \<open>await\<close> does not depend on the state it read before.
\<close>

record outcome =
  ui :: app_state
  remote :: store
  calls :: "remote_call list"

definition showUserFeedback :: "string \<Rightarrow> string \<Rightarrow> app_state \<Rightarrow> app_state" where
  "showUserFeedback message ftype s =
     s\<lparr>feedbackMessage := message, feedbackType := ftype, showFeedback := True\<rparr>"

text \<open>
  The guard \<open>if (!db || !userId)\<close>: \<open>ready\<close> gives the user id when both are truthy (the
  empty string is falsy).
\<close>

definition ready :: "app_state \<Rightarrow> string option" where
  "ready s =
     (case userId s of
        None \<Rightarrow> None
      | Some uid \<Rightarrow> if db s \<and> uid \<noteq> [] then Some uid else None)"

definition databaseNotReady :: "app_state \<Rightarrow> store \<Rightarrow> outcome" where
  "databaseNotReady s st =
     \<lparr>ui = showUserFeedback ''Database not ready. Please try again.'' ''error'' s,
      remote = st, calls = []\<rparr>"

section \<open>Saving and deleting entries\<close>

text \<open>
  \<open>entryData\<close> of \<open>handleSaveEntry\<close>: the form's fields, the author, and the tags mapped
  through \<open>trim\<close> and filtered to the non-empty ones.
\<close>

definition entryData :: "string \<Rightarrow> nat \<Rightarrow> form_entry \<Rightarrow> entry_data" where
  "entryData uid now f =
     \<lparr>title = form_title f, content = form_content f, date = form_date f,
      location = form_location f,
      tags = Some (filter (\<lambda>tag. tag \<noteq> []) (map trim (form_tags f))),
      privacy = form_privacy f, entry_type = form_type f, mediaUrls = form_mediaUrls f,
      collaborativeEntries = Some (form_collaborativeEntries f),
      author = uid, authorName = ''You'', timestamp = now\<rparr>"

definition handleSaveEntry :: "remote_env \<Rightarrow> nat \<Rightarrow> app_state \<Rightarrow> store \<Rightarrow> outcome" where
  "handleSaveEntry R now s st =
     (case ready s of
        None \<Rightarrow> databaseNotReady s st
      | Some uid \<Rightarrow>
          if form_title (formEntry s) = [] \<or> form_content (formEntry s) = [] then
            \<lparr>ui = showUserFeedback ''Title and content cannot be empty.'' ''error'' s,
             remote = st, calls = []\<rparr>
          else
            (case editingEntry s of
               Some e \<Rightarrow>
                 (let c = UpdateDocEntry (entry_id e) (entryData uid now (formEntry s)) in
                  case remoteCall R st c of
                    Inl msg \<Rightarrow>
                      \<lparr>ui = showUserFeedback (''Failed to save entry: '' @ msg) ''error'' s,
                       remote = st, calls = [c]\<rparr>
                  | Inr st' \<Rightarrow>
                      \<lparr>ui = (showUserFeedback ''Entry updated successfully!'' ''success'' s)
                              \<lparr>showNewEntry := False, editingEntry := None\<rparr>,
                       remote = st', calls = [c]\<rparr>)
             | None \<Rightarrow>
                 (let c = AddDocEntry (entryData uid now (formEntry s)) in
                  case remoteCall R st c of
                    Inl msg \<Rightarrow>
                      \<lparr>ui = showUserFeedback (''Failed to save entry: '' @ msg) ''error'' s,
                       remote = st, calls = [c]\<rparr>
                  | Inr st' \<Rightarrow>
                      \<lparr>ui = (showUserFeedback ''New entry added successfully!'' ''success'' s)
                              \<lparr>showNewEntry := False, editingEntry := None\<rparr>,
                       remote = st', calls = [c]\<rparr>)))"

text \<open>\<open>confirmed\<close> is the answer to \<open>window.confirm\<close>.\<close>

definition handleDeleteEntry :: "remote_env \<Rightarrow> bool \<Rightarrow> string \<Rightarrow> app_state \<Rightarrow> store \<Rightarrow> outcome" where
  "handleDeleteEntry R confirmed entryId s st =
     (case ready s of
        None \<Rightarrow> databaseNotReady s st
      | Some uid \<Rightarrow>
          if confirmed then
            (let c = DeleteDocEntry entryId in
             case remoteCall R st c of
               Inl msg \<Rightarrow>
                 \<lparr>ui = showUserFeedback (''Failed to delete entry: '' @ msg) ''error'' s,
                  remote = st, calls = [c]\<rparr>
             | Inr st' \<Rightarrow>
                 \<lparr>ui = showUserFeedback ''Entry deleted successfully!'' ''success'' s,
                  remote = st', calls = [c]\<rparr>)
          else \<lparr>ui = s, remote = st, calls = []\<rparr>)"

section \<open>AI questions\<close>

definition handleAnswerAIQuestion :: "remote_env \<Rightarrow> nat \<Rightarrow> string \<Rightarrow> string \<Rightarrow> app_state \<Rightarrow> store \<Rightarrow> outcome" where
  "handleAnswerAIQuestion R now questionId answerContent s st =
     (case ready s of
        None \<Rightarrow> databaseNotReady s st
      | Some uid \<Rightarrow>
          if trim answerContent = [] then
            \<lparr>ui = showUserFeedback ''Please provide an answer.'' ''error'' s,
             remote = st, calls = []\<rparr>
          else
            (let c = UpdateDocAnswer questionId answerContent now in
             case remoteCall R st c of
               Inl msg \<Rightarrow>
                 \<lparr>ui = showUserFeedback (''Failed to save answer: '' @ msg) ''error'' s,
                  remote = st, calls = [c]\<rparr>
             | Inr st' \<Rightarrow>
                 \<lparr>ui = showUserFeedback ''Memory saved to AI Assistant!'' ''success'' s,
                  remote = st', calls = [c]\<rparr>))"

text \<open>
  The two questions of \<open>generateAIQuestionsForYear\<close>. \<open>Date.now()\<close> is read once for each
  id: \<open>t1\<close> for the first, \<open>t2\<close> for the second.
\<close>

definition newQuestions :: "nat \<Rightarrow> nat \<Rightarrow> int \<Rightarrow> ai_question list" where
  "newQuestions t1 t2 yr =
     [\<lparr>question_id = ''q'' @ digits t1 @ ''a'',
       question = ''What were your biggest aspirations or dreams during '' @ showInt yr @ ''?'',
       relatedEntry = None, question_type = ''reflection'', answered = False,
       answer = None, answeredAt = None\<rparr>,
      \<lparr>question_id = ''q'' @ digits t2 @ ''b'',
       question = ''Who were your closest friends or mentors in '' @ showInt yr @
                  '' and how did they influence you?'',
       relatedEntry = None, question_type = ''people'', answered = False,
       answer = None, answeredAt = None\<rparr>]"

text \<open>
  The loop \<open>for (const q of newQuestions) await setDoc(doc(col, q.id), q)\<close>: the first
  call that fails ends it, with the error message.
\<close>

fun setDocs :: "remote_env \<Rightarrow> store \<Rightarrow> ai_question list \<Rightarrow> string option \<times> store \<times> remote_call list" where
  "setDocs R st [] = (None, st, [])"
| "setDocs R st (q # qs) =
     (case remoteCall R st (SetDocQuestion (question_id q) q) of
        Inl msg \<Rightarrow> (Some msg, st, [SetDocQuestion (question_id q) q])
      | Inr st' \<Rightarrow>
          (case setDocs R st' qs of
             (r, st'', cs) \<Rightarrow> (r, st'', SetDocQuestion (question_id q) q # cs)))"

definition generateAIQuestionsForYear :: "remote_env \<Rightarrow> nat \<Rightarrow> nat \<Rightarrow> int \<Rightarrow> app_state \<Rightarrow> store \<Rightarrow> outcome" where
  "generateAIQuestionsForYear R t1 t2 yr s st =
     (case ready s of
        None \<Rightarrow> databaseNotReady s st
      | Some uid \<Rightarrow>
          (case setDocs R st (newQuestions t1 t2 yr) of
             (Some msg, st', cs) \<Rightarrow>
               \<lparr>ui = showUserFeedback (''Failed to generate AI questions: '' @ msg) ''error'' s,
                remote = st', calls = cs\<rparr>
           | (None, st', cs) \<Rightarrow>
               \<lparr>ui = showUserFeedback (''New AI questions generated for '' @ showInt yr @ ''!'')
                       ''success'' s,
                remote = st', calls = cs\<rparr>))"

section \<open>Photo requests\<close>

definition requestHistoricalPhotos :: "remote_env \<Rightarrow> nat \<Rightarrow> string option \<Rightarrow> string option \<Rightarrow> string option \<Rightarrow> app_state \<Rightarrow> store \<Rightarrow> outcome" where
  "requestHistoricalPhotos R now loc timeframe description s st =
     (case ready s of
        None \<Rightarrow> databaseNotReady s st
      | Some uid \<Rightarrow>
          (let c = AddDocPhotoRequest
                     \<lparr>request_location = loc, request_timeframe = timeframe,
                      request_description = description, status = ''pending'',
                      responses = 0, requestedAt = now\<rparr> in
           case remoteCall R st c of
             Inl msg \<Rightarrow>
               \<lparr>ui = showUserFeedback (''Failed to submit photo request: '' @ msg) ''error'' s,
                remote = st, calls = [c]\<rparr>
           | Inr st' \<Rightarrow>
               \<lparr>ui = showUserFeedback ''Photo request submitted successfully!'' ''success'' s,
                remote = st', calls = [c]\<rparr>))"

text \<open>
  The click handler of the "Simulate Response" button of a request: it maps over the
  in-memory list and sets it; it makes no call to the store.
\<close>

definition simulateResponse :: "photo_request \<Rightarrow> app_state \<Rightarrow> app_state" where
  "simulateResponse request s =
     showUserFeedback ''Simulated a response to your photo request!'' ''success''
       (s\<lparr>photoRequests :=
            map (\<lambda>pr. if request_id pr = request_id request
                       then pr\<lparr>status := ''found'', responses := responses pr + 1\<rparr>
                       else pr)
              (photoRequests s)\<rparr>)"

section \<open>Collaborative comments\<close>

text \<open>\<open>entryDoc.data().collaborativeEntries || []\<close>.\<close>

definition currentCollaborativeEntries :: "entry_data \<Rightarrow> comment list" where
  "currentCollaborativeEntries e =
     (case collaborativeEntries e of None \<Rightarrow> [] | Some cs \<Rightarrow> cs)"

text \<open>\<open>t1\<close> is \<open>Date.now()\<close> of the id, \<open>t2\<close> the time of \<open>new Date()\<close>.\<close>

definition handleAddCollaborativeComment :: "remote_env \<Rightarrow> nat \<Rightarrow> nat \<Rightarrow> string \<Rightarrow> string \<Rightarrow> string \<Rightarrow> app_state \<Rightarrow> store \<Rightarrow> outcome" where
  "handleAddCollaborativeComment R t1 t2 entryId commentAuthor contentText s st =
     (case ready s of
        None \<Rightarrow> databaseNotReady s st
      | Some uid \<Rightarrow>
          if trim contentText = [] then
            \<lparr>ui = showUserFeedback ''Comment cannot be empty.'' ''error'' s,
             remote = st, calls = []\<rparr>
          else
            (case remoteCall R st (GetDocEntry entryId) of
               Inl msg \<Rightarrow>
                 \<lparr>ui = showUserFeedback (''Failed to add comment: '' @ msg) ''error'' s,
                  remote = st, calls = [GetDocEntry entryId]\<rparr>
             | Inr _ \<Rightarrow>
                 (case entriesCol st entryId of
                    None \<Rightarrow> \<lparr>ui = s, remote = st, calls = [GetDocEntry entryId]\<rparr>
                  | Some e \<Rightarrow>
                      (let newCollaborativeEntry =
                             \<lparr>comment_id = ''c'' @ digits t1, comment_author = commentAuthor,
                              comment_content = contentText, likes = Some 0,
                              comment_timestamp = t2\<rparr>;
                           c = UpdateDocCollaborative entryId
                                 (currentCollaborativeEntries e @ [newCollaborativeEntry]) in
                       case remoteCall R st c of
                         Inl msg \<Rightarrow>
                           \<lparr>ui = showUserFeedback (''Failed to add comment: '' @ msg) ''error'' s,
                            remote = st, calls = [GetDocEntry entryId, c]\<rparr>
                       | Inr st' \<Rightarrow>
                           \<lparr>ui = showUserFeedback ''Collaborative comment added!'' ''success'' s,
                            remote = st', calls = [GetDocEntry entryId, c]\<rparr>))))"

text \<open>
  \<open>comment.id === commentId ? { ...comment, likes: (comment.likes || 0) + 1 } : comment\<close>
\<close>

definition likeOne :: "string \<Rightarrow> comment \<Rightarrow> comment" where
  "likeOne commentId c =
     (if comment_id c = commentId
      then c\<lparr>likes := Some ((case likes c of None \<Rightarrow> 0 | Some n \<Rightarrow> n) + 1)\<rparr>
      else c)"

definition handleLikeCollaborativeComment :: "remote_env \<Rightarrow> string \<Rightarrow> string \<Rightarrow> app_state \<Rightarrow> store \<Rightarrow> outcome" where
  "handleLikeCollaborativeComment R entryId commentId s st =
     (case ready s of
        None \<Rightarrow> databaseNotReady s st
      | Some uid \<Rightarrow>
          (case remoteCall R st (GetDocEntry entryId) of
             Inl msg \<Rightarrow>
               \<lparr>ui = showUserFeedback (''Failed to like comment: '' @ msg) ''error'' s,
                remote = st, calls = [GetDocEntry entryId]\<rparr>
           | Inr _ \<Rightarrow>
               (case entriesCol st entryId of
                  None \<Rightarrow> \<lparr>ui = s, remote = st, calls = [GetDocEntry entryId]\<rparr>
                | Some e \<Rightarrow>
                    (let c = UpdateDocCollaborative entryId
                               (map (likeOne commentId) (currentCollaborativeEntries e)) in
                     case remoteCall R st c of
                       Inl msg \<Rightarrow>
                         \<lparr>ui = showUserFeedback (''Failed to like comment: '' @ msg) ''error'' s,
                          remote = st, calls = [GetDocEntry entryId, c]\<rparr>
                     | Inr st' \<Rightarrow>
                         \<lparr>ui = showUserFeedback ''Comment liked!'' ''success'' s,
                          remote = st', calls = [GetDocEntry entryId, c]\<rparr>))))"

section \<open>The form and the other local handlers\<close>

text \<open>
  \<open>openEntryModal\<close>: with an entry, the form takes its fields (\<open>tags || []\<close> and
  \<open>collaborativeEntries || []\<close>); without, the form is reset, with today's date
  (\<open>today\<close>). The modal is shown in both cases.
\<close>

definition openEntryModal :: "string \<Rightarrow> entry option \<Rightarrow> app_state \<Rightarrow> app_state" where
  "openEntryModal today entryToEdit s =
     (case entryToEdit of
        Some e \<Rightarrow>
          s\<lparr>editingEntry := Some e,
            formEntry :=
              \<lparr>form_title = title e, form_content = content e, form_date = date e,
               form_location = location e,
               form_tags = (case tags e of None \<Rightarrow> [] | Some ts \<Rightarrow> ts),
               form_privacy = privacy e, form_type = entry_type e,
               form_mediaUrls = mediaUrls e,
               form_collaborativeEntries =
                 (case collaborativeEntries e of None \<Rightarrow> [] | Some cs \<Rightarrow> cs)\<rparr>,
            showNewEntry := True\<rparr>
      | None \<Rightarrow>
          s\<lparr>editingEntry := None,
            formEntry :=
              \<lparr>form_title = [], form_content = [], form_date = today,
               form_location = [], form_tags = [], form_privacy = ''private'',
               form_type = ''personal'', form_mediaUrls = [],
               form_collaborativeEntries = []\<rparr>,
            showNewEntry := True\<rparr>)"

text \<open>\<open>value.split(',')\<close> of the tags field of the form.\<close>

fun splitComma :: "string \<Rightarrow> string list" where
  "splitComma [] = [[]]"
| "splitComma (c # cs) =
     (if c = CHR '','' then [] # splitComma cs
      else (case splitComma cs of
              w # ws \<Rightarrow> (c # w) # ws
            | [] \<Rightarrow> [[c]]))"

text \<open>\<open>mediaUrls.filter((_, i) => i !== index)\<close>.\<close>

definition removeAt :: "nat \<Rightarrow> 'a list \<Rightarrow> 'a list" where
  "removeAt index xs = map snd (filter (\<lambda>(i, x). i \<noteq> index) (enumerate 0 xs))"

text \<open>The edits of the form: each \<open>onChange\<close> sets one field of \<open>formEntry\<close>.\<close>

datatype form_edit =
    SetTitle string
  | SetContent string
  | SetDate string
  | SetLocation string
  | SetTags string
  | SetPrivacy string
  | SetType string
  | RemoveMedia nat
  | AddMedia

fun editForm :: "form_edit \<Rightarrow> app_state \<Rightarrow> app_state" where
  "editForm (SetTitle v) s = s\<lparr>formEntry := (formEntry s)\<lparr>form_title := v\<rparr>\<rparr>"
| "editForm (SetContent v) s = s\<lparr>formEntry := (formEntry s)\<lparr>form_content := v\<rparr>\<rparr>"
| "editForm (SetDate v) s = s\<lparr>formEntry := (formEntry s)\<lparr>form_date := v\<rparr>\<rparr>"
| "editForm (SetLocation v) s = s\<lparr>formEntry := (formEntry s)\<lparr>form_location := v\<rparr>\<rparr>"
| "editForm (SetTags v) s = s\<lparr>formEntry := (formEntry s)\<lparr>form_tags := splitComma v\<rparr>\<rparr>"
| "editForm (SetPrivacy v) s = s\<lparr>formEntry := (formEntry s)\<lparr>form_privacy := v\<rparr>\<rparr>"
| "editForm (SetType v) s = s\<lparr>formEntry := (formEntry s)\<lparr>form_type := v\<rparr>\<rparr>"
| "editForm (RemoveMedia index) s =
     s\<lparr>formEntry := (formEntry s)
          \<lparr>form_mediaUrls := removeAt index (form_mediaUrls (formEntry s))\<rparr>\<rparr>"
| "editForm AddMedia s =
     showUserFeedback ''Media upload simulated! (Requires actual storage)'' ''info''
       (s\<lparr>formEntry := (formEntry s)
            \<lparr>form_mediaUrls := form_mediaUrls (formEntry s) @
               [''https://placehold.co/100x100/A78BFA/FFFFFF?text=Media'' @
                digits (length (form_mediaUrls (formEntry s)) + 1)]\<rparr>\<rparr>)"

section \<open>The actions of a user\<close>

text \<open>
  Every handler that the rendered page binds to a control, with the values it reads
  from the clock, the dialogs and the input fields. The "Remember more" button sets the
  selected year and then generates the questions; the comment field calls its handler
  on the Enter key when the text is not blank, as the guest user.
\<close>

datatype action =
    SetCurrentView string
  | OpenEntryModal string "entry option"
  | CloseEntryModal
  | EditForm form_edit
  | SaveEntry nat
  | SetSearchQuery string
  | SetFilterBy string
  | LikeCollaborativeComment string string
  | CommentKeyDown string nat nat string string
  | DeleteEntry bool string
  | RememberMore nat nat int
  | AnswerAIQuestion nat string string
  | SimulateResponse photo_request
  | RequestHistoricalPhotos nat "string option" "string option" "string option"

fun perform :: "remote_env \<Rightarrow> action \<Rightarrow> app_state \<Rightarrow> store \<Rightarrow> outcome" where
  "perform R (SetCurrentView v) s st = \<lparr>ui = s\<lparr>currentView := v\<rparr>, remote = st, calls = []\<rparr>"
| "perform R (OpenEntryModal today entryToEdit) s st =
     \<lparr>ui = openEntryModal today entryToEdit s, remote = st, calls = []\<rparr>"
| "perform R CloseEntryModal s st = \<lparr>ui = s\<lparr>showNewEntry := False\<rparr>, remote = st, calls = []\<rparr>"
| "perform R (EditForm e) s st = \<lparr>ui = editForm e s, remote = st, calls = []\<rparr>"
| "perform R (SaveEntry now) s st = handleSaveEntry R now s st"
| "perform R (SetSearchQuery v) s st = \<lparr>ui = s\<lparr>searchQuery := v\<rparr>, remote = st, calls = []\<rparr>"
| "perform R (SetFilterBy v) s st = \<lparr>ui = s\<lparr>filterBy := v\<rparr>, remote = st, calls = []\<rparr>"
| "perform R (LikeCollaborativeComment entryId commentId) s st =
     handleLikeCollaborativeComment R entryId commentId s st"
| "perform R (CommentKeyDown key t1 t2 entryId v) s st =
     (if key = ''Enter'' \<and> trim v \<noteq> []
      then handleAddCollaborativeComment R t1 t2 entryId ''Guest User'' v s st
      else \<lparr>ui = s, remote = st, calls = []\<rparr>)"
| "perform R (DeleteEntry confirmed entryId) s st = handleDeleteEntry R confirmed entryId s st"
| "perform R (RememberMore t1 t2 yr) s st =
     generateAIQuestionsForYear R t1 t2 yr (s\<lparr>selectedTimelineYear := Some yr\<rparr>) st"
| "perform R (AnswerAIQuestion now questionId answerContent) s st =
     handleAnswerAIQuestion R now questionId answerContent s st"
| "perform R (SimulateResponse request) s st =
     \<lparr>ui = simulateResponse request s, remote = st, calls = []\<rparr>"
| "perform R (RequestHistoricalPhotos now loc timeframe description) s st =
     requestHistoricalPhotos R now loc timeframe description s st"

text \<open>The actions whose handler goes to the remote store.\<close>

fun callsStore :: "action \<Rightarrow> bool" where
  "callsStore (SaveEntry now) = True"
| "callsStore (LikeCollaborativeComment entryId commentId) = True"
| "callsStore (CommentKeyDown key t1 t2 entryId v) = True"
| "callsStore (DeleteEntry confirmed entryId) = True"
| "callsStore (RememberMore t1 t2 yr) = True"
| "callsStore (AnswerAIQuestion now questionId answerContent) = True"
| "callsStore (RequestHistoricalPhotos now loc timeframe description) = True"
| "callsStore _ = False"

text \<open>
  The application state with which the store handler of an action is called: the state
  of the click, but for "Remember more", which has set the selected year by then.
\<close>

fun stateAtStoreCall :: "action \<Rightarrow> app_state \<Rightarrow> app_state" where
  "stateAtStoreCall (RememberMore t1 t2 yr) s = s\<lparr>selectedTimelineYear := Some yr\<rparr>"
| "stateAtStoreCall _ s = s"

section \<open>Subscriptions, rendering and the other events\<close>

text \<open>
  The success callback of \<open>onSnapshot\<close> sets the in-memory list of its collection to the
  documents of the snapshot; the error callback shows a message.
\<close>

datatype snapshot =
    EntriesSnapshot "entry list"
  | TimelineEventsSnapshot "timeline_event list"
  | AiQuestionsSnapshot "ai_question list"
  | PhotoRequestsSnapshot "photo_request list"
  | SnapshotError string string

fun onSnapshot :: "snapshot \<Rightarrow> app_state \<Rightarrow> app_state" where
  "onSnapshot (EntriesSnapshot d) s = s\<lparr>entries := d\<rparr>"
| "onSnapshot (TimelineEventsSnapshot d) s = s\<lparr>timelineEvents := d\<rparr>"
| "onSnapshot (AiQuestionsSnapshot d) s = s\<lparr>aiQuestions := d\<rparr>"
| "onSnapshot (PhotoRequestsSnapshot d) s = s\<lparr>photoRequests := d\<rparr>"
| "onSnapshot (SnapshotError collectionName msg) s =
     showUserFeedback (''Error loading '' @ collectionName @ '': '' @ msg) ''error'' s"

text \<open>
  Rendering. Past the loading and the error screens, the timeline view calls
  \<open>timelineEvents.sort((a, b) => b.year - a.year)\<close> on the state array itself, so a render
  of that view leaves the in-memory list sorted. \<open>arraySort\<close> is the engine's sort. The
  entries view sorts the fresh array that \<open>entries.filter\<close> returns and leaves \<open>entries\<close>
  as it is.
\<close>

definition compareYears :: "timeline_event comparefn" where
  "compareYears a b = Some (year b - year a)"

definition render :: "(timeline_event comparefn \<Rightarrow> timeline_event list \<Rightarrow> timeline_event list) \<Rightarrow> app_state \<Rightarrow> app_state" where
  "render arraySort s =
     (if loading s then s
      else if error s \<noteq> None \<and> error s \<noteq> Some [] then s
      else if currentView s = ''timeline'' \<and> timelineEvents s \<noteq> []
      then s\<lparr>timelineEvents := arraySort compareYears (timelineEvents s)\<rparr>
      else s)"

text \<open>
  Everything that changes the state of the component: an action of the user, a render,
  a snapshot, the timer that hides the feedback message after three seconds, and the
  steps of the start (configuration missing, handles set, initialisation failed, user
  signed in, sign-in attempted with an optional error).
\<close>

datatype event =
    UserAction action
  | Render
  | Snapshot snapshot
  | FeedbackTimeout
  | ConfigMissing
  | FirebaseInitialized
  | InitFailed string
  | SignedIn string
  | SignInAttempted "string option"

fun step :: "(timeline_event comparefn \<Rightarrow> timeline_event list \<Rightarrow> timeline_event list) \<Rightarrow> remote_env \<Rightarrow> event \<Rightarrow> app_state \<Rightarrow> store \<Rightarrow> outcome" where
  "step arraySort R (UserAction a) s st = perform R a s st"
| "step arraySort R Render s st = \<lparr>ui = render arraySort s, remote = st, calls = []\<rparr>"
| "step arraySort R (Snapshot d) s st = \<lparr>ui = onSnapshot d s, remote = st, calls = []\<rparr>"
| "step arraySort R FeedbackTimeout s st =
     \<lparr>ui = s\<lparr>showFeedback := False, feedbackMessage := []\<rparr>, remote = st, calls = []\<rparr>"
| "step arraySort R ConfigMissing s st =
     \<lparr>ui = s\<lparr>error := Some ''Firebase configuration is missing. Cannot connect to database.'',
              loading := False\<rparr>,
      remote = st, calls = []\<rparr>"
| "step arraySort R FirebaseInitialized s st =
     \<lparr>ui = s\<lparr>db := True, auth := True\<rparr>, remote = st, calls = []\<rparr>"
| "step arraySort R (InitFailed msg) s st =
     \<lparr>ui = s\<lparr>error := Some (''Failed to initialize application: '' @ msg), loading := False\<rparr>,
      remote = st, calls = []\<rparr>"
| "step arraySort R (SignedIn uid) s st =
     \<lparr>ui = s\<lparr>userId := Some uid, isAuthReady := True, loading := False\<rparr>,
      remote = st, calls = []\<rparr>"
| "step arraySort R (SignInAttempted authError) s st =
     \<lparr>ui = (case authError of
              None \<Rightarrow> s\<lparr>loading := False\<rparr>
            | Some msg \<Rightarrow> s\<lparr>error := Some (''Authentication failed: '' @ msg), loading := False\<rparr>),
      remote = st, calls = []\<rparr>"

fun isSimulateResponse :: "event \<Rightarrow> bool" where
  "isSimulateResponse (UserAction (SimulateResponse request)) = True"
| "isSimulateResponse _ = False"

fun isSnapshot :: "event \<Rightarrow> bool" where
  "isSnapshot (Snapshot d) = True"
| "isSnapshot _ = False"

text \<open>The four in-memory lists that mirror the collections.\<close>

definition mirrors :: "app_state \<Rightarrow> entry list \<times> timeline_event list \<times> ai_question list \<times> photo_request list" where
  "mirrors s = (entries s, timelineEvents s, aiQuestions s, photoRequests s)"

text \<open>An action has failed when it ends with an error message.\<close>

definition failed :: "outcome \<Rightarrow> bool" where
  "failed out = (showFeedback (ui out) \<and> feedbackType (ui out) = ''error'')"

text \<open>
  Two application states that differ at most in the feedback message shown.
\<close>

definition unchangedApartFromFeedback :: "app_state \<Rightarrow> app_state \<Rightarrow> bool" where
  "unchangedApartFromFeedback s s' =
     (s'\<lparr>feedbackMessage := feedbackMessage s, feedbackType := feedbackType s,
         showFeedback := showFeedback s\<rparr> = s)"

section \<open>Sample data\<close>

text \<open>
  Concrete values on which the theorems below are instantiated. \<open>sampleDates\<close> gives the
  time values (milliseconds, UTC) of the two dates used.
\<close>

definition sampleDates :: "string \<Rightarrow> int option" where
  "sampleDates s =
     map_of [(''2015-06-01'', 1433116800000), (''2020-01-15'', 1579046400000)] s"

definition sampleComments :: "comment list" where
  "sampleComments =
     [\<lparr>comment_id = ''c100'', comment_author = ''Guest User'', comment_content = ''Nice'',
       likes = Some 2, comment_timestamp = 100\<rparr>,
      \<lparr>comment_id = ''c200'', comment_author = ''Guest User'', comment_content = ''Me too'',
       likes = None, comment_timestamp = 200\<rparr>]"

definition tripData :: entry_data where
  "tripData =
     \<lparr>title = ''Trip'', content = ''Went to Paris'', date = ''2015-06-01'',
      location = ''Paris'', tags = Some [''travel''], privacy = ''private'',
      entry_type = ''personal'', mediaUrls = [], collaborativeEntries = Some sampleComments,
      author = ''u1'', authorName = ''You'', timestamp = 50\<rparr>"

definition trip :: entry where
  "trip = entry_data.extend tripData (entry.fields ''e1'')"

definition party :: entry where
  "party =
     \<lparr>title = ''Party'', content = ''Birthday'', date = ''2020-01-15'',
      location = ''Home'', tags = None, privacy = ''private'',
      entry_type = ''event'', mediaUrls = [], collaborativeEntries = None,
      author = ''u1'', authorName = ''You'', timestamp = 60, entry_id = ''e2''\<rparr>"

text \<open>An entry saved with the date field of the form cleared: its date is the empty string.\<close>

definition undated :: entry where
  "undated =
     \<lparr>title = ''Someday'', content = ''No date yet'', date = [],
      location = [], tags = Some [], privacy = ''private'',
      entry_type = ''personal'', mediaUrls = [], collaborativeEntries = Some [],
      author = ''u1'', authorName = ''You'', timestamp = 65, entry_id = ''e3''\<rparr>"

definition sampleForm :: form_entry where
  "sampleForm =
     \<lparr>form_title = ''Trip'', form_content = ''Went to Paris'', form_date = ''2015-06-01'',
      form_location = ''Paris'', form_tags = ['' travel'', ''  '', ''travel''],
      form_privacy = ''private'', form_type = ''personal'', form_mediaUrls = [],
      form_collaborativeEntries = []\<rparr>"

definition samplePhotoRequest :: photo_request where
  "samplePhotoRequest =
     \<lparr>request_location = Some ''Orlando'', request_timeframe = Some ''2010s'',
      request_description = None, status = ''pending'', responses = 0, requestedAt = 70,
      request_id = ''p1''\<rparr>"

definition sampleQuestion :: ai_question where
  "sampleQuestion =
     \<lparr>question_id = ''q1a'', question = ''What do you remember?'', relatedEntry = None,
      question_type = ''reflection'', answered = False, answer = None, answeredAt = None\<rparr>"

text \<open>The two images with which \<open>historicalImages\<close> starts.\<close>

definition initialHistoricalImages :: "historical_image list" where
  "initialHistoricalImages =
     [\<lparr>image_id = ''hi1'', image_location = ''University of Florida, Gainesville'',
       image_year = 2024,
       image_description = ''Graduation ceremony at Ben Hill Griffin Stadium'',
       imageUrl = ''https://placehold.co/300x200/E0E7FF/4F46E5?text=UF+Stadium'',
       image_source = ''UF Archives''\<rparr>,
      \<lparr>image_id = ''hi2'', image_location = ''Lincoln High School, Orlando'',
       image_year = 2015,
       image_description = ''Main entrance of Lincoln High School'',
       imageUrl = ''https://placehold.co/300x200/F0F9FF/0B69FF?text=Lincoln+High'',
       image_source = ''School District Archives''\<rparr>]"

definition sampleTimeline :: "timeline_event list" where
  "sampleTimeline =
     [\<lparr>event_id = ''t1'', year = 2015, events = [''Graduated''], color = None\<rparr>,
      \<lparr>event_id = ''t2'', year = 2020, events = [''Moved''], color = None\<rparr>]"

definition sampleState :: app_state where
  "sampleState =
     \<lparr>db = True, auth = True, userId = Some ''u1'', isAuthReady = True, loading = False,
      error = None, entries = [trip, party], timelineEvents = sampleTimeline,
      aiQuestions = [sampleQuestion], photoRequests = [samplePhotoRequest],
      historicalImages = initialHistoricalImages, currentView = ''timeline'',
      searchQuery = [], filterBy = ''all'', selectedTimelineYear = None,
      showNewEntry = True, editingEntry = None,
      showFeedback = False, feedbackMessage = [], feedbackType = ''success'',
      formEntry = sampleForm\<rparr>"

definition sampleStore :: store where
  "sampleStore =
     \<lparr>entriesCol = [''e1'' \<mapsto> tripData],
      aiQuestionsCol = [''q1a'' \<mapsto> sampleQuestion],
      photoRequestsCol = Map.empty\<rparr>"

definition sampleRemote :: remote_env where
  "sampleRemote = \<lparr>rejects = (\<lambda>c. None), autoId = ''doc1''\<rparr>"

text \<open>A remote store that is out of reach: every call fails.\<close>

definition failingRemote :: remote_env where
  "failingRemote = \<lparr>rejects = (\<lambda>c. Some ''offline''), autoId = ''doc1''\<rparr>"

section \<open>Lemmas on strings\<close>

lemma str_includes_sublist: "str_includes s q \<longleftrightarrow> sublist q s"
  by (induction s) (auto simp: sublist_Cons_right)

lemma sublist_map_iff:
  "sublist (map f q) (map f s) \<longleftrightarrow> (\<exists>u. sublist u s \<and> map f u = map f q)"
proof
  assume "sublist (map f q) (map f s)"
  then obtain ps ss where "map f s = ps @ map f q @ ss"
    by (auto simp: sublist_def)
  then obtain s1 r where r: "s = s1 @ r" "map f q @ ss = map f r"
    unfolding map_eq_append_conv by blast
  from r(2) obtain u s2 where "r = u @ s2" "map f q = map f u"
    unfolding append_eq_map_conv by blast
  with r(1) have "sublist u s" "map f u = map f q"
    by (auto simp: sublist_def)
  then show "\<exists>u. sublist u s \<and> map f u = map f q" by blast
next
  assume "\<exists>u. sublist u s \<and> map f u = map f q"
  then obtain u where u: "sublist u s" "map f u = map f q" by blast
  from u(1) have "sublist (map f u) (map f s)" by (rule map_mono_sublist)
  with u(2) show "sublist (map f q) (map f s)" by simp
qed

lemma ci_substring_ascii:
  "ci_substring asciiLowerCase q s \<longleftrightarrow>
     (\<exists>u. sublist u s \<and> asciiLowerCase u = asciiLowerCase q)"
  unfolding ci_substring_def asciiLowerCase_def by (rule sublist_map_iff)

lemma trim_nonempty_ends:
  assumes "trim s \<noteq> []"
  shows "\<not> isWhiteSpace (hd (trim s)) \<and> \<not> isWhiteSpace (last (trim s))"
proof -
  define d where "d = dropWhile isWhiteSpace s"
  define e where "e = dropWhile isWhiteSpace (rev d)"
  have t: "trim s = rev e" by (simp add: trim_def d_def e_def)
  with assms have ne: "e \<noteq> []" by simp
  then have l: "\<not> isWhiteSpace (hd e)" unfolding e_def by (rule hd_dropWhile)
  from ne have dne: "d \<noteq> []" by (auto simp: e_def)
  then have hd: "\<not> isWhiteSpace (hd d)" unfolding d_def by (rule hd_dropWhile)
  have "suffix e (rev d)" unfolding e_def by (rule suffix_dropWhile)
  then obtain p where "rev d = p @ e" by (auto simp: suffix_def)
  with ne have "last e = last (rev d)" by simp
  also from dne have "\<dots> = hd d" by (simp add: last_rev)
  finally have "hd (rev e) = hd d" using ne by (simp add: hd_rev)
  with hd l t ne show ?thesis by (simp add: last_rev)
qed

lemma trim_not_blank: "trim s \<noteq> [] \<Longrightarrow> \<not> blank (trim s)"
  using trim_nonempty_ends [of s] hd_in_set [of "trim s"] by (auto simp: blank_def)

lemma trim_idem: "trim (trim s) = trim s"
proof (cases "trim s = []")
  case True
  moreover have "trim [] = []" by (simp add: trim_def)
  ultimately show ?thesis by simp
next
  case False
  then have e: "\<not> isWhiteSpace (hd (trim s))" "\<not> isWhiteSpace (last (trim s))"
    using trim_nonempty_ends by blast+
  from False e(1) have 1: "dropWhile isWhiteSpace (trim s) = trim s"
    by (cases "trim s") simp_all
  from False e(2) have 2: "dropWhile isWhiteSpace (rev (trim s)) = rev (trim s)"
    by (cases "rev (trim s)") (auto simp: last_rev hd_rev dest: arg_cong [where f = hd])
  show ?thesis
    unfolding trim_def [of "trim s"] 1 2 by simp
qed

lemma blank_trim: "blank s \<longleftrightarrow> trim s = []"
proof
  assume "blank s"
  then have "dropWhile isWhiteSpace s = []" by (simp add: blank_def)
  then show "trim s = []" by (simp add: trim_def del: dropWhile_eq_Nil_conv)
next
  assume "trim s = []"
  then have "dropWhile isWhiteSpace (rev (dropWhile isWhiteSpace s)) = []"
    by (simp add: trim_def)
  then have "\<forall>c \<in> set (dropWhile isWhiteSpace s). isWhiteSpace c"
    by simp
  then have "dropWhile isWhiteSpace s = []"
    by (metis dropWhile_eq_Nil_conv dropWhile_idem)
  then show "blank s" by (simp add: blank_def)
qed


lemma matchesSearch_selected:
  "(matchesSearch lower q e \<and> matchesFilter t e) = selected lower q t e"
  by (cases "tags e")
     (simp_all add: matchesSearch_def matchesFilter_def selected_def ci_substring_def
        str_includes_sublist list_ex_iff)

section \<open>Lemmas on sorting\<close>

lemma mset_insertBy: "mset (insertBy comparefn x ys) = add_mset x (mset ys)"
  by (induction ys) simp_all

lemma mset_insertionSort: "mset (insertionSort comparefn xs) = mset xs"
  by (induction xs) (simp_all add: insertionSort_def mset_insertBy)

lemma set_insertBy: "set (insertBy comparefn x ys) = insert x (set ys)"
  using mset_insertBy [of comparefn x ys] by (metis set_mset_mset set_mset_add_mset_insert)

lemma set_insertionSort: "set (insertionSort comparefn xs) = set xs"
  using mset_insertionSort [of comparefn xs] by (metis set_mset_mset)

text \<open>Under a consistent comparator, "does not compare as less" is a total preorder.\<close>

lemma consistent_refl:
  "consistentComparator comparefn S \<Longrightarrow> a \<in> S \<Longrightarrow> sortCompare comparefn a a = 0"
  unfolding consistentComparator_def by blast

lemma consistent_sym:
  "consistentComparator comparefn S \<Longrightarrow> a \<in> S \<Longrightarrow> b \<in> S \<Longrightarrow>
   sortCompare comparefn a b = 0 \<Longrightarrow> sortCompare comparefn b a = 0"
  unfolding consistentComparator_def by blast

lemma consistent_trans_eq:
  "consistentComparator comparefn S \<Longrightarrow> a \<in> S \<Longrightarrow> b \<in> S \<Longrightarrow> c \<in> S \<Longrightarrow>
   sortCompare comparefn a b = 0 \<Longrightarrow> sortCompare comparefn b c = 0 \<Longrightarrow>
   sortCompare comparefn a c = 0"
  unfolding consistentComparator_def by blast

lemma consistent_trans_less:
  "consistentComparator comparefn S \<Longrightarrow> a \<in> S \<Longrightarrow> b \<in> S \<Longrightarrow> c \<in> S \<Longrightarrow>
   sortCompare comparefn a b < 0 \<Longrightarrow> sortCompare comparefn b c < 0 \<Longrightarrow>
   sortCompare comparefn a c < 0"
  unfolding consistentComparator_def by blast

lemma consistent_trans_greater:
  "consistentComparator comparefn S \<Longrightarrow> a \<in> S \<Longrightarrow> b \<in> S \<Longrightarrow> c \<in> S \<Longrightarrow>
   sortCompare comparefn a b > 0 \<Longrightarrow> sortCompare comparefn b c > 0 \<Longrightarrow>
   sortCompare comparefn a c > 0"
  unfolding consistentComparator_def by blast

lemma consistent_defined:
  "consistentComparator comparefn S \<Longrightarrow> a \<in> S \<Longrightarrow> b \<in> S \<Longrightarrow> comparefn a b \<noteq> None"
  unfolding consistentComparator_def by blast

lemma consistent_subset:
  assumes c: "consistentComparator comparefn S" and T: "T \<subseteq> S"
  shows "consistentComparator comparefn T"
  unfolding consistentComparator_def
proof (intro conjI ballI impI)
  fix a b assume "a \<in> T" "b \<in> T"
  with T have "a \<in> S" "b \<in> S" by blast+
  then show "comparefn a b \<noteq> None" by (rule consistent_defined [OF c])
next
  fix a assume "a \<in> T"
  with T have "a \<in> S" by blast
  then show "sortCompare comparefn a a = 0" by (rule consistent_refl [OF c])
next
  fix a b assume "a \<in> T" "b \<in> T" and e: "sortCompare comparefn a b = 0"
  with T have "a \<in> S" "b \<in> S" by blast+
  then show "sortCompare comparefn b a = 0" using e by (rule consistent_sym [OF c])
next
  fix a b d assume "a \<in> T" "b \<in> T" "d \<in> T"
    and e: "sortCompare comparefn a b = 0 \<and> sortCompare comparefn b d = 0"
  with T have "a \<in> S" "b \<in> S" "d \<in> S" by blast+
  then show "sortCompare comparefn a d = 0"
    using e by (blast intro: consistent_trans_eq [OF c])
next
  fix a b d assume "a \<in> T" "b \<in> T" "d \<in> T"
    and e: "sortCompare comparefn a b < 0 \<and> sortCompare comparefn b d < 0"
  with T have "a \<in> S" "b \<in> S" "d \<in> S" by blast+
  then show "sortCompare comparefn a d < 0"
    using e by (blast intro: consistent_trans_less [OF c])
next
  fix a b d assume "a \<in> T" "b \<in> T" "d \<in> T"
    and e: "0 < sortCompare comparefn a b \<and> 0 < sortCompare comparefn b d"
  with T have "a \<in> S" "b \<in> S" "d \<in> S" by blast+
  then show "0 < sortCompare comparefn a d"
    using e by (blast intro: consistent_trans_greater [OF c])
qed

lemma consistent_not_less_sym:
  assumes c: "consistentComparator comparefn S" and S: "a \<in> S" "b \<in> S"
    and ab: "sortCompare comparefn a b \<le> 0"
  shows "\<not> sortCompare comparefn b a < 0"
proof
  assume l: "sortCompare comparefn b a < 0"
  show False
  proof (cases "sortCompare comparefn a b = 0")
    case True
    from consistent_sym [OF c S True] l show False by simp
  next
    case False
    with ab have "sortCompare comparefn a b < 0" by simp
    from consistent_trans_less [OF c S(1) S(2) S(1) this l] consistent_refl [OF c S(1)]
    show False by simp
  qed
qed

lemma consistent_greater_less:
  assumes c: "consistentComparator comparefn S" and S: "a \<in> S" "b \<in> S"
    and ab: "sortCompare comparefn a b > 0"
  shows "sortCompare comparefn b a < 0"
proof (rule ccontr)
  assume n: "\<not> sortCompare comparefn b a < 0"
  show False
  proof (cases "sortCompare comparefn b a = 0")
    case True
    from consistent_sym [OF c S(2) S(1) True] ab show False by simp
  next
    case False
    with n have "sortCompare comparefn b a > 0" by simp
    from consistent_trans_greater [OF c S(1) S(2) S(1) ab this] consistent_refl [OF c S(1)]
    show False by simp
  qed
qed

lemma consistent_not_less_trans:
  assumes c: "consistentComparator comparefn S" and S: "x \<in> S" "y \<in> S" "z \<in> S"
    and xy: "sortCompare comparefn x y \<le> 0"
    and yz: "\<not> sortCompare comparefn z y < 0"
  shows "\<not> sortCompare comparefn z x < 0"
proof
  assume zx: "sortCompare comparefn z x < 0"
  have yz': "sortCompare comparefn y z \<le> 0"
  proof (rule ccontr)
    assume "\<not> sortCompare comparefn y z \<le> 0"
    then have "sortCompare comparefn y z > 0" by simp
    from consistent_greater_less [OF c S(2) S(3) this] yz show False by simp
  qed
  show False
  proof (cases "sortCompare comparefn x y = 0")
    case xy0: True
    show False
    proof (cases "sortCompare comparefn y z = 0")
      case True
      from consistent_trans_eq [OF c S(1) S(2) S(3) xy0 True]
      have "sortCompare comparefn x z = 0" .
      from consistent_sym [OF c S(1) S(3) this] zx show False by simp
    next
      case False
      with yz' have "sortCompare comparefn y z < 0" by simp
      from consistent_trans_less [OF c S(2) S(3) S(1) this zx]
        consistent_sym [OF c S(1) S(2) xy0]
      show False by simp
    qed
  next
    case False
    with xy have "sortCompare comparefn x y < 0" by simp
    from consistent_trans_less [OF c S(3) S(1) S(2) zx this] yz show False by simp
  qed
qed

lemma sorted_insertBy:
  assumes c: "consistentComparator comparefn S" and x: "x \<in> S"
    and "set ys \<subseteq> S"
    and "sorted_wrt (\<lambda>a b. \<not> sortCompare comparefn b a < 0) ys"
  shows "sorted_wrt (\<lambda>a b. \<not> sortCompare comparefn b a < 0) (insertBy comparefn x ys)"
  using assms(3,4)
proof (induction ys)
  case Nil
  then show ?case by simp
next
  case (Cons y ys)
  from Cons.prems(1) have y: "y \<in> S" and ys: "set ys \<subseteq> S" by simp_all
  show ?case
  proof (cases "sortCompare comparefn x y \<le> 0")
    case xy: True
    have "\<not> sortCompare comparefn z x < 0" if "z \<in> set (y # ys)" for z
    proof (cases "z = y")
      case True
      with consistent_not_less_sym [OF c x y xy] show ?thesis by simp
    next
      case False
      with that have z: "z \<in> set ys" by simp
      with Cons.prems(2) have "\<not> sortCompare comparefn z y < 0" by simp
      moreover from z ys have "z \<in> S" by blast
      ultimately show ?thesis
        using consistent_not_less_trans [OF c x y _ xy] by blast
    qed
    with Cons.prems(2) xy show ?thesis by simp
  next
    case False
    then have n: "\<not> sortCompare comparefn x y < 0" by simp
    from Cons.prems(2) have "sorted_wrt (\<lambda>a b. \<not> sortCompare comparefn b a < 0) ys" by simp
    with ys have "sorted_wrt (\<lambda>a b. \<not> sortCompare comparefn b a < 0) (insertBy comparefn x ys)"
      by (rule Cons.IH)
    with Cons.prems(2) False n show ?thesis
      by (simp add: set_insertBy)
  qed
qed

lemma sorted_insertionSort:
  "consistentComparator comparefn (set xs) \<Longrightarrow>
   sorted_wrt (\<lambda>a b. \<not> sortCompare comparefn b a < 0) (insertionSort comparefn xs)"
proof (induction xs)
  case Nil
  then show ?case by (simp add: insertionSort_def)
next
  case (Cons x xs)
  from Cons.prems have "consistentComparator comparefn (set xs)"
    by (rule consistent_subset) auto
  then have "sorted_wrt (\<lambda>a b. \<not> sortCompare comparefn b a < 0) (insertionSort comparefn xs)"
    by (rule Cons.IH)
  moreover have "x \<in> set (x # xs)" "set (insertionSort comparefn xs) \<subseteq> set (x # xs)"
    by (auto simp: set_insertionSort)
  ultimately
  have "sorted_wrt (\<lambda>a b. \<not> sortCompare comparefn b a < 0)
          (insertBy comparefn x (insertionSort comparefn xs))"
    using Cons.prems by (intro sorted_insertBy [where S = "set (x # xs)"])
  then show ?case by (simp add: insertionSort_def)
qed

lemma conformingSort_insertionSort: "conformingSort insertionSort"
  by (simp add: conformingSort_def mset_insertionSort sorted_insertionSort)

lemma compareDates_valid:
  "parseDate (date a) = Some ta \<Longrightarrow> parseDate (date b) = Some tb \<Longrightarrow>
   sortCompare (compareDates parseDate) a b = tb - ta"
  by (simp add: compareDates_def sortCompare_def)

lemma compareDates_consistent:
  fixes S :: "('a entry_data_scheme) set"
  assumes "\<forall>e \<in> S. parseDate (date e) \<noteq> None"
  shows "consistentComparator (compareDates parseDate) S"
proof -
  define k where "k e = (case parseDate (date e) of Some t \<Rightarrow> t | None \<Rightarrow> 0)"
    for e :: "'a entry_data_scheme"
  have v: "parseDate (date e) = Some (k e)" if "e \<in> S" for e
    using assms that by (auto simp: k_def)
  have 1: "compareDates parseDate a b = Some (k b - k a)" if "a \<in> S" "b \<in> S" for a b
    using v [OF that(1)] v [OF that(2)] by (simp add: compareDates_def)
  have 2: "sortCompare (compareDates parseDate) a b = k b - k a" if "a \<in> S" "b \<in> S" for a b
    using 1 [OF that] by (simp add: sortCompare_def)
  show ?thesis
    unfolding consistentComparator_def
  proof (intro conjI ballI impI)
    fix a b assume "a \<in> S" "b \<in> S"
    then show "compareDates parseDate a b \<noteq> None" by (simp add: 1)
  next
    fix a assume "a \<in> S"
    then show "sortCompare (compareDates parseDate) a a = 0" by (simp add: 2)
  next
    fix a b assume "a \<in> S" "b \<in> S" "sortCompare (compareDates parseDate) a b = 0"
    then show "sortCompare (compareDates parseDate) b a = 0" by (simp add: 2)
  next
    fix a b c assume "a \<in> S" "b \<in> S" "c \<in> S"
      "sortCompare (compareDates parseDate) a b = 0 \<and> sortCompare (compareDates parseDate) b c = 0"
    then show "sortCompare (compareDates parseDate) a c = 0" by (simp add: 2)
  next
    fix a b c assume "a \<in> S" "b \<in> S" "c \<in> S"
      "sortCompare (compareDates parseDate) a b < 0 \<and> sortCompare (compareDates parseDate) b c < 0"
    then show "sortCompare (compareDates parseDate) a c < 0" by (simp add: 2)
  next
    fix a b c assume "a \<in> S" "b \<in> S" "c \<in> S"
      "0 < sortCompare (compareDates parseDate) a b \<and> 0 < sortCompare (compareDates parseDate) b c"
    then show "0 < sortCompare (compareDates parseDate) a c" by (simp add: 2)
  qed
qed

section \<open>The derived view of the entry list\<close>

text \<open>
  What holds of the view whatever the engine's sort and lower-casing are. For every
  entry list \<open>E\<close>, query \<open>q\<close> and type filter \<open>t\<close>, the view holds exactly the entries of
  \<open>E\<close> (with their multiplicity) for which \<open>q\<close> is a case-insensitive substring of the
  title, the content, some tag or the location and whose type is \<open>t\<close> unless \<open>t\<close> is
  \<open>all\<close>; when every date of \<open>E\<close> is a valid date the view is in descending order of
  date; and the view for the empty query and the filter \<open>all\<close> is the whole list sorted.
\<close>

theorem filteredEntries_selected_sorted:
  assumes "conformingSort arraySort"
  shows "mset (filteredEntries arraySort lower parseDate E q t) = mset (filter (selected lower q t) E) \<and>
   ((\<forall>e \<in> set E. parseDate (date e) \<noteq> None) \<longrightarrow>
      dateDescending parseDate (filteredEntries arraySort lower parseDate E q t)) \<and>
   (lower [] = [] \<longrightarrow>
      filteredEntries arraySort lower parseDate E [] ''all'' = sortByDateDescending arraySort parseDate E)"
proof (intro conjI impI)
  from assms have p: "mset (arraySort c xs) = mset xs" for c xs
    by (simp add: conformingSort_def)
  show "mset (filteredEntries arraySort lower parseDate E q t) = mset (filter (selected lower q t) E)"
    by (simp add: filteredEntries_def sortByDateDescending_def p matchesSearch_selected)
  have s: "set (arraySort c xs) = set xs" for c xs
    using p [of c xs] by (metis set_mset_mset)
  {
    assume v: "\<forall>e \<in> set E. parseDate (date e) \<noteq> None"
    let ?F = "filter (selected lower q t) E"
    from v have vF: "\<forall>e \<in> set ?F. parseDate (date e) \<noteq> None" by simp
    then have "consistentComparator (compareDates parseDate) (set ?F)"
      by (rule compareDates_consistent)
    with assms
    have srt: "sorted_wrt (\<lambda>a b. \<not> sortCompare (compareDates parseDate) b a < 0)
            (arraySort (compareDates parseDate) ?F)"
      by (simp add: conformingSort_def)
    have "sorted_wrt (\<lambda>a b. notDatedAfter parseDate b a) (arraySort (compareDates parseDate) ?F)"
    proof (rule sorted_wrt_mono_rel [OF _ srt])
      fix a b assume "a \<in> set (arraySort (compareDates parseDate) ?F)"
        "b \<in> set (arraySort (compareDates parseDate) ?F)"
        and n: "\<not> sortCompare (compareDates parseDate) b a < 0"
      then have "a \<in> set ?F" "b \<in> set ?F" by (simp_all only: s)
      with vF have "parseDate (date a) \<noteq> None" "parseDate (date b) \<noteq> None"
        by blast+
      then obtain ta tb where "parseDate (date a) = Some ta" "parseDate (date b) = Some tb"
        by auto
      with n show "notDatedAfter parseDate b a"
        by (simp add: compareDates_valid notDatedAfter_def)
    qed
    then show "dateDescending parseDate (filteredEntries arraySort lower parseDate E q t)"
      by (simp add: filteredEntries_def sortByDateDescending_def matchesSearch_selected
          dateDescending_def)
  }
  {
    assume "lower [] = []"
    then have "filter (\<lambda>e. matchesSearch lower [] e \<and> matchesFilter ''all'' e) E = E"
      by (simp add: matchesSearch_def matchesFilter_def str_includes_sublist)
    then show "filteredEntries arraySort lower parseDate E [] ''all'' = sortByDateDescending arraySort parseDate E"
      by (simp add: filteredEntries_def)
  }
qed

text \<open>
  The scenario of the spec: the entry "Trip" is found by the query \<open>PARIS\<close>, and the two
  sample entries come out latest first.
\<close>

lemma filteredEntries_sample:
  "filteredEntries insertionSort asciiLowerCase sampleDates [trip, party] ''PARIS'' ''all'' =
     [trip] \<and>
   filteredEntries insertionSort asciiLowerCase sampleDates [trip, party] [] ''all'' =
     [party, trip] \<and>
   dateDescending sampleDates
     (filteredEntries insertionSort asciiLowerCase sampleDates [trip, party] ''a'' ''all'')"
proof -
  have h: "\<forall>e \<in> set [trip, party]. sampleDates (date e) \<noteq> None"
    by (simp add: trip_def tripData_def party_def sampleDates_def entry_data.defs entry.defs)
  have a: "filteredEntries insertionSort asciiLowerCase sampleDates [trip, party] ''PARIS''
      ''all'' = [trip]"
    by (simp add: filteredEntries_def sortByDateDescending_def insertionSort_def
        matchesSearch_def matchesFilter_def asciiLowerCase_def asciiLowerChar_def trip_def
        tripData_def party_def entry_data.defs entry.defs)
  have b: "sortByDateDescending insertionSort sampleDates [trip, party] = [party, trip]"
    by (simp add: sortByDateDescending_def insertionSort_def compareDates_def sortCompare_def
        sampleDates_def trip_def tripData_def party_def entry_data.defs entry.defs)
  have l: "asciiLowerCase [] = []"
    by (simp add: asciiLowerCase_def)
  from filteredEntries_selected_sorted
         [OF conformingSort_insertionSort, of asciiLowerCase sampleDates "[trip, party]"
            "''a''" "''all''"] h a b l
  show ?thesis by simp
qed

text \<open>
  C1. The view is to be sorted by date descending for every entry list, and the code
  says so itself (\<open>// Sort by date descending\<close>). It is not when a date is not a valid
  date, which the form allows (the date field can be cleared, and saving does not look
  at it). At the list of the 2015 entry, the entry with no date and the 2020 entry,
  with the empty query and the filter \<open>all\<close>, both comparisons with the undated entry
  are \<open>NaN\<close>, which a sort reads as "equal", while the 2015 entry compares as
  greater than the 2020 entry: the comparison function is not consistent, and the
  language promises no order. Sorted by insertion, the view comes out as it went in,
  the 2020 entry behind the 2015 entry.
\<close>

theorem filteredEntries_invalid_date:
  "filteredEntries insertionSort asciiLowerCase sampleDates [trip, undated, party] [] ''all'' =
     [trip, undated, party] \<and>
   sampleDates (date trip) = Some 1433116800000 \<and>
   sampleDates (date undated) = None \<and>
   sampleDates (date party) = Some 1579046400000 \<and>
   compareDates sampleDates trip undated = None \<and>
   compareDates sampleDates undated party = None \<and>
   compareDates sampleDates trip party = Some 145929600000 \<and>
   \<not> dateDescending sampleDates
       (filteredEntries insertionSort asciiLowerCase sampleDates [trip, undated, party] []
          ''all'')"
proof -
  have d: "sampleDates (date trip) = Some 1433116800000" "sampleDates (date undated) = None"
    "sampleDates (date party) = Some 1579046400000"
    by (simp_all add: trip_def tripData_def undated_def party_def sampleDates_def
        entry_data.defs entry.defs)
  have c: "compareDates sampleDates trip undated = None"
    "compareDates sampleDates undated party = None"
    "compareDates sampleDates trip party = Some 145929600000"
    by (simp_all add: compareDates_def d)
  have f: "filter (\<lambda>e. matchesSearch asciiLowerCase [] e \<and> matchesFilter ''all'' e)
      [trip, undated, party] = [trip, undated, party]"
    by (simp add: matchesSearch_def matchesFilter_def asciiLowerCase_def str_includes_sublist)
  have s: "insertionSort (compareDates sampleDates) [trip, undated, party] =
      [trip, undated, party]"
    by (simp add: insertionSort_def sortCompare_def c)
  have r: "filteredEntries insertionSort asciiLowerCase sampleDates [trip, undated, party] []
      ''all'' = [trip, undated, party]"
    by (simp only: filteredEntries_def f sortByDateDescending_def s)
  have "\<not> dateDescending sampleDates [trip, undated, party]"
    by (simp add: dateDescending_def notDatedAfter_def d)
  with r d c show ?thesis by simp
qed

text \<open>
  At that list the comparison function is not a consistent comparator, so the order of
  the result is the engine's choice.
\<close>

lemma compareDates_not_consistent_sample:
  "\<not> consistentComparator (compareDates sampleDates) (set [trip, undated, party])"
proof
  assume "consistentComparator (compareDates sampleDates) (set [trip, undated, party])"
  then have "compareDates sampleDates trip undated \<noteq> None"
    by (rule consistent_defined) simp_all
  moreover have "compareDates sampleDates trip undated = None"
    by (simp add: compareDates_def undated_def sampleDates_def)
  ultimately show False by simp
qed

section \<open>Saving an entry\<close>

lemma handleSaveEntry_not_ready:
  "ready s = None \<Longrightarrow> handleSaveEntry R now s st = databaseNotReady s st"
  by (simp add: handleSaveEntry_def)

lemma handleSaveEntry_empty:
  "ready s = Some uid \<Longrightarrow> form_title (formEntry s) = [] \<or> form_content (formEntry s) = [] \<Longrightarrow>
   handleSaveEntry R now s st =
     \<lparr>ui = showUserFeedback ''Title and content cannot be empty.'' ''error'' s,
      remote = st, calls = []\<rparr>"
  by (simp add: handleSaveEntry_def)

lemma handleSaveEntry_saves:
  assumes "ready s = Some uid"
    and "form_title (formEntry s) \<noteq> []" and "form_content (formEntry s) \<noteq> []"
  shows "handleSaveEntry R now s st =
     (let c = (case editingEntry s of
                 Some e \<Rightarrow> UpdateDocEntry (entry_id e) (entryData uid now (formEntry s))
               | None \<Rightarrow> AddDocEntry (entryData uid now (formEntry s))) in
      case remoteCall R st c of
        Inl msg \<Rightarrow>
          \<lparr>ui = showUserFeedback (''Failed to save entry: '' @ msg) ''error'' s,
           remote = st, calls = [c]\<rparr>
      | Inr st' \<Rightarrow>
          \<lparr>ui = (showUserFeedback
                   (case editingEntry s of Some e \<Rightarrow> ''Entry updated successfully!''
                    | None \<Rightarrow> ''New entry added successfully!'') ''success'' s)
                  \<lparr>showNewEntry := False, editingEntry := None\<rparr>,
           remote = st', calls = [c]\<rparr>)"
  using assms by (cases "editingEntry s") (simp_all add: handleSaveEntry_def Let_def split: sum.splits)

lemma remoteCall_entry_stored:
  "remoteCall R st (AddDocEntry d) = Inr st' \<Longrightarrow> entriesCol st' (autoId R) = Some d"
  "remoteCall R st (UpdateDocEntry i d) = Inr st' \<Longrightarrow> entriesCol st' i = Some d"
  by (auto simp: remoteCall_def split: option.splits)

text \<open>
  What the guard \<open>!formEntry.title || !formEntry.content\<close> ensures: a draft whose title
  or content is the empty string is refused with an error message and without a call
  to the remote store, and the store is called only when both are non-empty.
\<close>

lemma handleSaveEntry_empty_rejected:
  "(form_title (formEntry s) = [] \<or> form_content (formEntry s) = [] \<longrightarrow>
      calls (handleSaveEntry R now s st) = [] \<and>
      remote (handleSaveEntry R now s st) = st \<and>
      failed (handleSaveEntry R now s st) \<and>
      (ready s \<noteq> None \<longrightarrow>
         feedbackMessage (ui (handleSaveEntry R now s st)) =
           ''Title and content cannot be empty.'')) \<and>
   (calls (handleSaveEntry R now s st) \<noteq> [] \<longrightarrow>
      form_title (formEntry s) \<noteq> [] \<and> form_content (formEntry s) \<noteq> [])"
proof (cases "ready s")
  case None
  then show ?thesis
    by (simp add: handleSaveEntry_not_ready databaseNotReady_def showUserFeedback_def failed_def)
next
  case (Some uid)
  show ?thesis
  proof (cases "form_title (formEntry s) = [] \<or> form_content (formEntry s) = []")
    case True
    with Some show ?thesis
      by (simp add: handleSaveEntry_empty [OF Some True] showUserFeedback_def failed_def)
  next
    case False
    then show ?thesis by simp
  qed
qed

text \<open>
  C2. A draft whose title or content is blank (empty or white space only) is to be
  refused without a call to the remote store, as the handlers of answers and comments
  do with \<open>.trim()\<close>. The guard of \<open>handleSaveEntry\<close> does not trim: at the sample draft
  with a title of two spaces, \<open>addDoc\<close> is called, the entry is stored with that title,
  and the message shown is the one of success.
\<close>

theorem handleSaveEntry_blank_title:
  "form_title (sampleForm\<lparr>form_title := ''  ''\<rparr>) = ''  '' \<and>
   trim ''  '' = [] \<and>
   calls (handleSaveEntry sampleRemote 80
            (sampleState\<lparr>formEntry := sampleForm\<lparr>form_title := ''  ''\<rparr>\<rparr>) sampleStore) =
     [AddDocEntry (entryData ''u1'' 80 (sampleForm\<lparr>form_title := ''  ''\<rparr>))] \<and>
   map_option title
     (entriesCol (remote (handleSaveEntry sampleRemote 80
            (sampleState\<lparr>formEntry := sampleForm\<lparr>form_title := ''  ''\<rparr>\<rparr>) sampleStore))
        ''doc1'') = Some ''  '' \<and>
   feedbackMessage (ui (handleSaveEntry sampleRemote 80
            (sampleState\<lparr>formEntry := sampleForm\<lparr>form_title := ''  ''\<rparr>\<rparr>) sampleStore)) =
     ''New entry added successfully!''"
  by (simp add: trim_def isWhiteSpace_def handleSaveEntry_def ready_def sampleState_def
      sampleForm_def sampleRemote_def remoteCall_def entryData_def showUserFeedback_def)

text \<open>
  C3 (as amended). For every successful save, the persisted entry's tags are the
  draft's tags, each trimmed, with the empty strings removed, in the draft's order;
  so no stored tag is blank and every stored tag is trimmed. Duplicates are kept.
\<close>

theorem handleSaveEntry_tags:
  assumes "\<not> failed (handleSaveEntry R now s st)"
  shows "\<exists>uid. ready s = Some uid \<and>
     entriesCol (remote (handleSaveEntry R now s st))
       (case editingEntry s of Some e \<Rightarrow> entry_id e | None \<Rightarrow> autoId R) =
       Some (entryData uid now (formEntry s)) \<and>
     tags (entryData uid now (formEntry s)) =
       Some (filter (\<lambda>tag. tag \<noteq> []) (map trim (form_tags (formEntry s)))) \<and>
     (\<forall>tag \<in> set (filter (\<lambda>tag. tag \<noteq> []) (map trim (form_tags (formEntry s)))).
        \<not> blank tag \<and> trim tag = tag)"
proof -
  from assms obtain uid where u: "ready s = Some uid"
    by (cases "ready s")
       (auto simp: handleSaveEntry_not_ready databaseNotReady_def failed_def showUserFeedback_def)
  from assms u have ne: "form_title (formEntry s) \<noteq> []" "form_content (formEntry s) \<noteq> []"
    using handleSaveEntry_empty [OF u, of R now st]
    by (auto simp: failed_def showUserFeedback_def)
  note eq = handleSaveEntry_saves [OF u ne, of R now st]
  define c where "c = (case editingEntry s of
                 Some e \<Rightarrow> UpdateDocEntry (entry_id e) (entryData uid now (formEntry s))
               | None \<Rightarrow> AddDocEntry (entryData uid now (formEntry s)))"
  from assms eq obtain st' where ok: "remoteCall R st c = Inr st'"
    by (cases "remoteCall R st c") (auto simp: c_def Let_def failed_def showUserFeedback_def)
  with eq have r: "remote (handleSaveEntry R now s st) = st'"
    by (simp add: c_def Let_def)
  have 1: "entriesCol st'
       (case editingEntry s of Some e \<Rightarrow> entry_id e | None \<Rightarrow> autoId R) =
       Some (entryData uid now (formEntry s))"
    using ok by (cases "editingEntry s") (simp_all add: c_def remoteCall_entry_stored)
  have 2: "\<forall>tag \<in> set (filter (\<lambda>tag. tag \<noteq> []) (map trim (form_tags (formEntry s)))).
        \<not> blank tag \<and> trim tag = tag"
    by (auto simp: trim_idem trim_not_blank)
  have 3: "tags (entryData uid now (formEntry s)) =
       Some (filter (\<lambda>tag. tag \<noteq> []) (map trim (form_tags (formEntry s))))"
    by (simp add: entryData_def)
  from u 1 2 3 r show ?thesis by blast
qed


text \<open>The theorem at the sample draft, saved as a new document.\<close>

theorem handleSaveEntry_tags_witness:
  "\<not> failed (handleSaveEntry sampleRemote 80 sampleState sampleStore) \<and>
   entriesCol (remote (handleSaveEntry sampleRemote 80 sampleState sampleStore)) ''doc1'' =
     Some (entryData ''u1'' 80 sampleForm) \<and>
   tags (entryData ''u1'' 80 sampleForm) = Some [''travel'', ''travel'']"
proof -
  have 1: "\<not> failed (handleSaveEntry sampleRemote 80 sampleState sampleStore)"
    by (simp add: handleSaveEntry_def ready_def sampleState_def failed_def showUserFeedback_def
      sampleForm_def sampleRemote_def remoteCall_def)
  have 2: "ready sampleState = Some ''u1''" "editingEntry sampleState = None" "autoId sampleRemote = ''doc1''"
     "formEntry sampleState = sampleForm"
    by (simp_all add: ready_def sampleState_def sampleRemote_def)
  have 3: "filter (\<lambda>tag. tag \<noteq> []) (map trim (form_tags sampleForm)) = [''travel'', ''travel'']"
    by (simp add: sampleForm_def trim_def isWhiteSpace_def)
  from handleSaveEntry_tags [OF 1] 2 3 show ?thesis using 1 by auto
qed

text \<open>
  The sample draft has the tags \<open>" travel"\<close>, \<open>"  "\<close> and \<open>"travel"\<close>; the stored list holds
  \<open>travel\<close> twice.
\<close>

theorem handleSaveEntry_duplicate_tags_counterexample:
  "\<not> failed (handleSaveEntry sampleRemote 80 sampleState sampleStore) \<and>
   map_option tags (entriesCol (remote (handleSaveEntry sampleRemote 80 sampleState sampleStore)) ''doc1'') =
     Some (Some [''travel'', ''travel'']) \<and>
   \<not> distinct [''travel'', ''travel'']"
  by (simp add: handleSaveEntry_def ready_def sampleState_def failed_def showUserFeedback_def
      sampleForm_def sampleRemote_def remoteCall_def entryData_def trim_def isWhiteSpace_def)

section \<open>Calls accepted by the store\<close>

lemma remoteCall_accepted:
  "rejects R c = None \<Longrightarrow> remoteCall R st c = applyCall (autoId R) st c"
  by (simp add: remoteCall_def)

section \<open>Liking a comment\<close>

lemma handleLikeCollaborativeComment_accepted:
  assumes "ready s = Some uid"
    and "entriesCol st entryId = Some e"
    and "rejects R (GetDocEntry entryId) = None"
    and "rejects R (UpdateDocCollaborative entryId
           (map (likeOne commentId) (currentCollaborativeEntries e))) = None"
  shows "handleLikeCollaborativeComment R entryId commentId s st =
     \<lparr>ui = showUserFeedback ''Comment liked!'' ''success'' s,
      remote = st\<lparr>entriesCol := (entriesCol st)
                 (entryId \<mapsto> e\<lparr>collaborativeEntries :=
                    Some (map (likeOne commentId) (currentCollaborativeEntries e))\<rparr>)\<rparr>,
      calls = [GetDocEntry entryId,
               UpdateDocCollaborative entryId
                 (map (likeOne commentId) (currentCollaborativeEntries e))]\<rparr>"
  using assms by (simp add: handleLikeCollaborativeComment_def remoteCall_accepted)

lemma map_likeOne_unmatched:
  "commentId \<notin> set (map comment_id cs) \<Longrightarrow> map (likeOne commentId) cs = cs"
  by (induction cs) (auto simp: likeOne_def)

text \<open>
  C4. For every entry whose comments have pairwise distinct ids and every comment id
  present in the entry, a like that the store accepts writes the entry back with the
  likes of the one comment of that id increased by 1 (a missing count is read as 0),
  every other comment of the list and every other field of the entry unchanged; the
  other documents of the store are unchanged as well.
\<close>

theorem handleLikeCollaborativeComment_one_like:
  assumes "ready s = Some uid"
    and "entriesCol st entryId = Some e"
    and "collaborativeEntries e = Some cs"
    and "rejects R (GetDocEntry entryId) = None"
    and "rejects R (UpdateDocCollaborative entryId (map (likeOne commentId) cs)) = None"
    and "distinct (map comment_id cs)"
    and "commentId \<in> set (map comment_id cs)"
  shows "\<exists>k < length cs.
       comment_id (cs ! k) = commentId \<and>
       entriesCol (remote (handleLikeCollaborativeComment R entryId commentId s st)) entryId =
         Some (e\<lparr>collaborativeEntries :=
           Some (cs[k := (cs ! k)\<lparr>likes :=
                   Some ((case likes (cs ! k) of None \<Rightarrow> 0 | Some n \<Rightarrow> n) + 1)\<rparr>])\<rparr>) \<and>
       (\<forall>i. i \<noteq> entryId \<longrightarrow>
          entriesCol (remote (handleLikeCollaborativeComment R entryId commentId s st)) i =
            entriesCol st i) \<and>
       aiQuestionsCol (remote (handleLikeCollaborativeComment R entryId commentId s st)) =
         aiQuestionsCol st \<and>
       photoRequestsCol (remote (handleLikeCollaborativeComment R entryId commentId s st)) =
         photoRequestsCol st"
proof -
  from assms(3) have cur: "currentCollaborativeEntries e = cs"
    by (simp add: currentCollaborativeEntries_def)
  from assms(7) obtain k where k: "k < length cs" "comment_id (cs ! k) = commentId"
    by (auto simp: in_set_conv_nth)
  have other: "comment_id (cs ! j) \<noteq> commentId" if "j < length cs" "j \<noteq> k" for j
  proof
    assume "comment_id (cs ! j) = commentId"
    with k that have "map comment_id cs ! j = map comment_id cs ! k" by simp
    moreover from k(1) that(1)
    have "j < length (map comment_id cs)" "k < length (map comment_id cs)" by simp_all
    ultimately have "j = k" using assms(6) by (metis nth_eq_iff_index_eq)
    with that(2) show False by simp
  qed
  let ?liked = "(cs ! k)\<lparr>likes := Some ((case likes (cs ! k) of None \<Rightarrow> 0 | Some n \<Rightarrow> n) + 1)\<rparr>"
  have upd: "map (likeOne commentId) cs = cs[k := ?liked]"
  proof (rule nth_equalityI)
    show "length (map (likeOne commentId) cs) = length (cs[k := ?liked])"
      by simp
  next
    fix j assume "j < length (map (likeOne commentId) cs)"
    then have j: "j < length cs" by simp
    show "map (likeOne commentId) cs ! j = cs[k := ?liked] ! j"
    proof (cases "j = k")
      case True
      with k show ?thesis by (simp add: likeOne_def)
    next
      case False
      with j other [OF j False] show ?thesis by (simp add: likeOne_def)
    qed
  qed
  have eq: "handleLikeCollaborativeComment R entryId commentId s st =
     \<lparr>ui = showUserFeedback ''Comment liked!'' ''success'' s,
      remote = st\<lparr>entriesCol := (entriesCol st)
                 (entryId \<mapsto> e\<lparr>collaborativeEntries := Some (map (likeOne commentId) cs)\<rparr>)\<rparr>,
      calls = [GetDocEntry entryId, UpdateDocCollaborative entryId (map (likeOne commentId) cs)]\<rparr>"
    using handleLikeCollaborativeComment_accepted [of s uid st entryId e R commentId] assms cur
    by simp
  show ?thesis
    using k by (intro exI [of _ k]) (simp add: eq upd [symmetric])
qed

text \<open>The theorem on the sample entry, for its first comment.\<close>

theorem handleLikeCollaborativeComment_one_like_witness:
  "ready sampleState = Some ''u1'' \<and>
   entriesCol sampleStore ''e1'' = Some tripData \<and>
   collaborativeEntries tripData = Some sampleComments \<and>
   distinct (map comment_id sampleComments) \<and>
   ''c100'' \<in> set (map comment_id sampleComments) \<and>
   (\<exists>k < length sampleComments.
      comment_id (sampleComments ! k) = ''c100'' \<and>
      entriesCol (remote (handleLikeCollaborativeComment sampleRemote ''e1'' ''c100''
                            sampleState sampleStore)) ''e1'' =
        Some (tripData\<lparr>collaborativeEntries :=
          Some (sampleComments[k := (sampleComments ! k)\<lparr>likes :=
                  Some ((case likes (sampleComments ! k) of None \<Rightarrow> 0 | Some n \<Rightarrow> n) + 1)\<rparr>])\<rparr>))"
proof -
  have 1: "ready sampleState = Some ''u1''"
    by (simp add: ready_def sampleState_def)
  have 2: "entriesCol sampleStore ''e1'' = Some tripData"
    by (simp add: sampleStore_def)
  have 3: "collaborativeEntries tripData = Some sampleComments"
    by (simp add: tripData_def)
  have 4: "rejects sampleRemote (GetDocEntry ''e1'') = None"
    by (simp add: sampleRemote_def)
  have 5: "rejects sampleRemote
      (UpdateDocCollaborative ''e1'' (map (likeOne ''c100'') sampleComments)) = None"
    by (simp add: sampleRemote_def)
  have 6: "distinct (map comment_id sampleComments)"
    by (simp add: sampleComments_def)
  have 7: "''c100'' \<in> set (map comment_id sampleComments)"
    by (simp add: sampleComments_def)
  from handleLikeCollaborativeComment_one_like [OF 1 2 3 4 5 6 7] 1 2 3 6 7
  show ?thesis by blast
qed

text \<open>
  C10. For every entry and every comment id that matches no comment of the entry, a
  like that the store accepts writes the list of comments back unchanged, element for
  element, and ends with the success message: nothing at the interface tells the
  unmatched like from a matched one.
\<close>

theorem handleLikeCollaborativeComment_unmatched:
  assumes "ready s = Some uid"
    and "entriesCol st entryId = Some e"
    and "commentId \<notin> set (map comment_id (currentCollaborativeEntries e))"
    and "rejects R (GetDocEntry entryId) = None"
    and "rejects R (UpdateDocCollaborative entryId (currentCollaborativeEntries e)) = None"
  shows "calls (handleLikeCollaborativeComment R entryId commentId s st) =
       [GetDocEntry entryId,
        UpdateDocCollaborative entryId (currentCollaborativeEntries e)] \<and>
     entriesCol (remote (handleLikeCollaborativeComment R entryId commentId s st)) entryId =
       Some (e\<lparr>collaborativeEntries := Some (currentCollaborativeEntries e)\<rparr>) \<and>
     ui (handleLikeCollaborativeComment R entryId commentId s st) =
       showUserFeedback ''Comment liked!'' ''success'' s \<and>
     \<not> failed (handleLikeCollaborativeComment R entryId commentId s st)"
proof -
  from assms(3) have m: "map (likeOne commentId) (currentCollaborativeEntries e) =
      currentCollaborativeEntries e"
    by (rule map_likeOne_unmatched)
  from handleLikeCollaborativeComment_accepted [of s uid st entryId e R commentId] assms m
  show ?thesis by (simp add: failed_def showUserFeedback_def)
qed

text \<open>The theorem on the sample entry, for an id that none of its comments has.\<close>

theorem handleLikeCollaborativeComment_unmatched_witness:
  "ready sampleState = Some ''u1'' \<and>
   entriesCol sampleStore ''e1'' = Some tripData \<and>
   ''c999'' \<notin> set (map comment_id (currentCollaborativeEntries tripData)) \<and>
   calls (handleLikeCollaborativeComment sampleRemote ''e1'' ''c999'' sampleState sampleStore) =
     [GetDocEntry ''e1'', UpdateDocCollaborative ''e1'' sampleComments] \<and>
   entriesCol (remote (handleLikeCollaborativeComment sampleRemote ''e1'' ''c999''
                         sampleState sampleStore)) ''e1'' = Some tripData \<and>
   \<not> failed (handleLikeCollaborativeComment sampleRemote ''e1'' ''c999'' sampleState sampleStore)"
proof -
  have 1: "ready sampleState = Some ''u1''"
    by (simp add: ready_def sampleState_def)
  have 2: "entriesCol sampleStore ''e1'' = Some tripData"
    by (simp add: sampleStore_def)
  have c: "currentCollaborativeEntries tripData = sampleComments"
    by (simp add: currentCollaborativeEntries_def tripData_def)
  have 3: "''c999'' \<notin> set (map comment_id (currentCollaborativeEntries tripData))"
    by (simp add: c sampleComments_def)
  have 4: "rejects sampleRemote (GetDocEntry ''e1'') = None"
    by (simp add: sampleRemote_def)
  have 5: "rejects sampleRemote
      (UpdateDocCollaborative ''e1'' (currentCollaborativeEntries tripData)) = None"
    by (simp add: sampleRemote_def)
  have 6: "tripData\<lparr>collaborativeEntries := Some sampleComments\<rparr> = tripData"
    by (simp add: tripData_def)
  from handleLikeCollaborativeComment_unmatched [OF 1 2 3 4 5] 1 2 3 c 6
  show ?thesis by simp
qed

section \<open>Adding a comment\<close>

lemma handleAddCollaborativeComment_blank:
  "trim contentText = [] \<Longrightarrow>
   handleAddCollaborativeComment R t1 t2 entryId commentAuthor contentText s st =
     (case ready s of
        None \<Rightarrow> databaseNotReady s st
      | Some uid \<Rightarrow> \<lparr>ui = showUserFeedback ''Comment cannot be empty.'' ''error'' s,
                     remote = st, calls = []\<rparr>)"
  by (simp add: handleAddCollaborativeComment_def split: option.splits)

lemma handleAddCollaborativeComment_accepted:
  assumes "ready s = Some uid"
    and "trim contentText \<noteq> []"
    and "entriesCol st entryId = Some e"
    and "rejects R (GetDocEntry entryId) = None"
    and "rejects R (UpdateDocCollaborative entryId
           (currentCollaborativeEntries e @
            [\<lparr>comment_id = ''c'' @ digits t1, comment_author = commentAuthor,
              comment_content = contentText, likes = Some 0, comment_timestamp = t2\<rparr>])) = None"
  shows "handleAddCollaborativeComment R t1 t2 entryId commentAuthor contentText s st =
     \<lparr>ui = showUserFeedback ''Collaborative comment added!'' ''success'' s,
      remote = st\<lparr>entriesCol := (entriesCol st)
                 (entryId \<mapsto> e\<lparr>collaborativeEntries :=
                    Some (currentCollaborativeEntries e @
                      [\<lparr>comment_id = ''c'' @ digits t1, comment_author = commentAuthor,
                        comment_content = contentText, likes = Some 0,
                        comment_timestamp = t2\<rparr>])\<rparr>)\<rparr>,
      calls = [GetDocEntry entryId,
               UpdateDocCollaborative entryId
                 (currentCollaborativeEntries e @
                  [\<lparr>comment_id = ''c'' @ digits t1, comment_author = commentAuthor,
                    comment_content = contentText, likes = Some 0,
                    comment_timestamp = t2\<rparr>])]\<rparr>"
  using assms by (simp add: handleAddCollaborativeComment_def remoteCall_accepted)

text \<open>
  C5. Adding a comment with blank content (empty or white space only) makes no call to
  the remote store, leaves it as it was and ends with an error message, the validation
  message when the database is ready. With content that is not blank, on an existing
  entry and with the store accepting the calls, the entry is written back with exactly
  one new comment, of likes 0 and of the given author and content, after the existing
  comments, which keep their order.
\<close>

theorem handleAddCollaborativeComment_blank_or_appended:
  "(blank contentText \<longrightarrow>
      calls (handleAddCollaborativeComment R t1 t2 entryId commentAuthor contentText s st) = [] \<and>
      remote (handleAddCollaborativeComment R t1 t2 entryId commentAuthor contentText s st) = st \<and>
      failed (handleAddCollaborativeComment R t1 t2 entryId commentAuthor contentText s st) \<and>
      (ready s \<noteq> None \<longrightarrow>
         feedbackMessage
           (ui (handleAddCollaborativeComment R t1 t2 entryId commentAuthor contentText s st)) =
           ''Comment cannot be empty.'')) \<and>
   (\<not> blank contentText \<and> ready s \<noteq> None \<and> entriesCol st entryId = Some e \<and>
    rejects R (GetDocEntry entryId) = None \<and>
    rejects R (UpdateDocCollaborative entryId
       (currentCollaborativeEntries e @
        [\<lparr>comment_id = ''c'' @ digits t1, comment_author = commentAuthor,
          comment_content = contentText, likes = Some 0, comment_timestamp = t2\<rparr>])) = None \<longrightarrow>
      entriesCol
        (remote (handleAddCollaborativeComment R t1 t2 entryId commentAuthor contentText s st))
        entryId =
        Some (e\<lparr>collaborativeEntries :=
          Some (currentCollaborativeEntries e @
            [\<lparr>comment_id = ''c'' @ digits t1, comment_author = commentAuthor,
              comment_content = contentText, likes = Some 0, comment_timestamp = t2\<rparr>])\<rparr>))"
proof (intro conjI impI)
  assume b: "blank contentText"
  then have t: "trim contentText = []" by (simp add: blank_trim)
  note eq = handleAddCollaborativeComment_blank [OF t, of R t1 t2 entryId commentAuthor s st]
  show "calls (handleAddCollaborativeComment R t1 t2 entryId commentAuthor contentText s st) = []"
    by (cases "ready s") (simp_all add: eq databaseNotReady_def)
  show "remote (handleAddCollaborativeComment R t1 t2 entryId commentAuthor contentText s st) = st"
    by (cases "ready s") (simp_all add: eq databaseNotReady_def)
  show "failed (handleAddCollaborativeComment R t1 t2 entryId commentAuthor contentText s st)"
    by (cases "ready s") (simp_all add: eq databaseNotReady_def failed_def showUserFeedback_def)
  show "feedbackMessage
           (ui (handleAddCollaborativeComment R t1 t2 entryId commentAuthor contentText s st)) =
           ''Comment cannot be empty.''" if "ready s \<noteq> None"
    using that by (cases "ready s") (simp_all add: eq showUserFeedback_def)
next
  assume a: "\<not> blank contentText \<and> ready s \<noteq> None \<and> entriesCol st entryId = Some e \<and>
    rejects R (GetDocEntry entryId) = None \<and>
    rejects R (UpdateDocCollaborative entryId
       (currentCollaborativeEntries e @
        [\<lparr>comment_id = ''c'' @ digits t1, comment_author = commentAuthor,
          comment_content = contentText, likes = Some 0, comment_timestamp = t2\<rparr>])) = None"
  then obtain uid where u: "ready s = Some uid" by auto
  from a have t: "trim contentText \<noteq> []" by (simp add: blank_trim)
  from a handleAddCollaborativeComment_accepted [OF u t, of st entryId e R t1 commentAuthor t2]
  show "entriesCol
        (remote (handleAddCollaborativeComment R t1 t2 entryId commentAuthor contentText s st))
        entryId =
        Some (e\<lparr>collaborativeEntries :=
          Some (currentCollaborativeEntries e @
            [\<lparr>comment_id = ''c'' @ digits t1, comment_author = commentAuthor,
              comment_content = contentText, likes = Some 0, comment_timestamp = t2\<rparr>])\<rparr>)"
    by simp
qed

text \<open>The theorem for a comment of two spaces and for the comment \<open>Lovely\<close>.\<close>

theorem handleAddCollaborativeComment_blank_or_appended_witness:
  "blank ''  '' \<and>
   ready sampleState \<noteq> None \<and>
   calls (handleAddCollaborativeComment sampleRemote 300 301 ''e1'' ''Guest User'' ''  ''
            sampleState sampleStore) = [] \<and>
   feedbackMessage (ui (handleAddCollaborativeComment sampleRemote 300 301 ''e1''
            ''Guest User'' ''  '' sampleState sampleStore)) = ''Comment cannot be empty.'' \<and>
   \<not> blank ''Lovely'' \<and>
   entriesCol sampleStore ''e1'' = Some tripData \<and>
   entriesCol (remote (handleAddCollaborativeComment sampleRemote 300 301 ''e1''
            ''Guest User'' ''Lovely'' sampleState sampleStore)) ''e1'' =
     Some (tripData\<lparr>collaborativeEntries :=
       Some (sampleComments @
         [\<lparr>comment_id = ''c300'', comment_author = ''Guest User'',
           comment_content = ''Lovely'', likes = Some 0, comment_timestamp = 301\<rparr>])\<rparr>)"
proof -
  have 1: "blank ''  ''" "\<not> blank ''Lovely''"
    by (simp_all add: blank_def isWhiteSpace_def)
  have 2: "ready sampleState \<noteq> None"
    by (simp add: ready_def sampleState_def)
  have 3: "entriesCol sampleStore ''e1'' = Some tripData"
    by (simp add: sampleStore_def)
  have 4: "rejects sampleRemote c = None" for c
    by (simp add: sampleRemote_def)
  have 5: "currentCollaborativeEntries tripData = sampleComments"
    by (simp add: currentCollaborativeEntries_def tripData_def)
  have 6: "digits 300 = ''300''"
    by (simp add: digits.simps)
  from handleAddCollaborativeComment_blank_or_appended
         [where contentText = "''  ''" and R = sampleRemote and ?t1.0 = 300 and ?t2.0 = 301
            and entryId = "''e1''" and commentAuthor = "''Guest User''" and s = sampleState
            and st = sampleStore and e = tripData]
       handleAddCollaborativeComment_blank_or_appended
         [where contentText = "''Lovely''" and R = sampleRemote and ?t1.0 = 300 and ?t2.0 = 301
            and entryId = "''e1''" and commentAuthor = "''Guest User''" and s = sampleState
            and st = sampleStore and e = tripData]
       1 2 3 4 5 6
  show ?thesis by simp
qed

section \<open>Answering a question\<close>

lemma handleAnswerAIQuestion_blank:
  "trim answerContent = [] \<Longrightarrow>
   handleAnswerAIQuestion R now questionId answerContent s st =
     (case ready s of
        None \<Rightarrow> databaseNotReady s st
      | Some uid \<Rightarrow> \<lparr>ui = showUserFeedback ''Please provide an answer.'' ''error'' s,
                     remote = st, calls = []\<rparr>)"
  by (simp add: handleAnswerAIQuestion_def split: option.splits)

lemma handleAnswerAIQuestion_remote:
  "remote (handleAnswerAIQuestion R now questionId answerContent s st) = st \<or>
   (trim answerContent \<noteq> [] \<and>
    applyCall (autoId R) st (UpdateDocAnswer questionId answerContent now) =
      Inr (remote (handleAnswerAIQuestion R now questionId answerContent s st)))"
  by (simp add: handleAnswerAIQuestion_def databaseNotReady_def remoteCall_def Let_def
      split: option.splits sum.splits)

lemma applyCall_answer:
  "applyCall newId st (UpdateDocAnswer i a t) = Inr st' \<Longrightarrow>
   \<exists>q. aiQuestionsCol st i = Some q \<and>
       st' = st\<lparr>aiQuestionsCol := (aiQuestionsCol st)
                 (i \<mapsto> q\<lparr>answered := True, answer := Some a, answeredAt := Some t\<rparr>)\<rparr>"
  by (cases "aiQuestionsCol st i") auto

text \<open>
  C6. Answering with blank content makes no call to the remote store and leaves it as
  it was, so the question's \<open>answered\<close> flag stays as it is. With content that is not
  blank, on an existing question and with the store accepting the call, the question
  is stored with \<open>answered = true\<close>, the answer and the time of the answer. Every question
  that is answered in the store after the operation has an answer, provided the same
  held of that question before.
\<close>

theorem handleAnswerAIQuestion_blank_or_answered:
  "(blank answerContent \<longrightarrow>
      calls (handleAnswerAIQuestion R now questionId answerContent s st) = [] \<and>
      remote (handleAnswerAIQuestion R now questionId answerContent s st) = st) \<and>
   (\<not> blank answerContent \<and> ready s \<noteq> None \<and> aiQuestionsCol st questionId = Some q \<and>
    rejects R (UpdateDocAnswer questionId answerContent now) = None \<longrightarrow>
      aiQuestionsCol (remote (handleAnswerAIQuestion R now questionId answerContent s st))
        questionId =
        Some (q\<lparr>answered := True, answer := Some answerContent, answeredAt := Some now\<rparr>)) \<and>
   (aiQuestionsCol (remote (handleAnswerAIQuestion R now questionId answerContent s st)) i =
      Some q' \<and> answered q' \<and>
    (\<forall>q0. aiQuestionsCol st i = Some q0 \<and> answered q0 \<longrightarrow> answer q0 \<noteq> None) \<longrightarrow>
      answer q' \<noteq> None)"
proof (intro conjI impI)
  assume "blank answerContent"
  then have t: "trim answerContent = []" by (simp add: blank_trim)
  note eq = handleAnswerAIQuestion_blank [OF t, of R now questionId s st]
  show "calls (handleAnswerAIQuestion R now questionId answerContent s st) = []"
    by (cases "ready s") (simp_all add: eq databaseNotReady_def)
  show "remote (handleAnswerAIQuestion R now questionId answerContent s st) = st"
    by (cases "ready s") (simp_all add: eq databaseNotReady_def)
next
  assume a: "\<not> blank answerContent \<and> ready s \<noteq> None \<and> aiQuestionsCol st questionId = Some q \<and>
    rejects R (UpdateDocAnswer questionId answerContent now) = None"
  then obtain uid where u: "ready s = Some uid" by auto
  from a have t: "trim answerContent \<noteq> []" by (simp add: blank_trim)
  from a u t show "aiQuestionsCol (remote (handleAnswerAIQuestion R now questionId answerContent s st))
        questionId =
        Some (q\<lparr>answered := True, answer := Some answerContent, answeredAt := Some now\<rparr>)"
    by (simp add: handleAnswerAIQuestion_def remoteCall_accepted)
next
  assume a: "aiQuestionsCol (remote (handleAnswerAIQuestion R now questionId answerContent s st)) i =
      Some q' \<and> answered q' \<and>
    (\<forall>q0. aiQuestionsCol st i = Some q0 \<and> answered q0 \<longrightarrow> answer q0 \<noteq> None)"
  from handleAnswerAIQuestion_remote [of R now questionId answerContent s st]
  show "answer q' \<noteq> None"
  proof
    assume "remote (handleAnswerAIQuestion R now questionId answerContent s st) = st"
    with a show ?thesis by auto
  next
    assume "trim answerContent \<noteq> [] \<and>
      applyCall (autoId R) st (UpdateDocAnswer questionId answerContent now) =
        Inr (remote (handleAnswerAIQuestion R now questionId answerContent s st))"
    then obtain q1 where "remote (handleAnswerAIQuestion R now questionId answerContent s st) =
        st\<lparr>aiQuestionsCol := (aiQuestionsCol st)
                 (questionId \<mapsto> q1\<lparr>answered := True, answer := Some answerContent,
                    answeredAt := Some now\<rparr>)\<rparr>"
      using applyCall_answer by blast
    with a show ?thesis by (cases "i = questionId") auto
  qed
qed

text \<open>The theorem for an answer of two spaces and for a real answer.\<close>

theorem handleAnswerAIQuestion_blank_or_answered_witness:
  "blank ''  '' \<and>
   calls (handleAnswerAIQuestion sampleRemote 400 ''q1a'' ''  '' sampleState sampleStore) = [] \<and>
   remote (handleAnswerAIQuestion sampleRemote 400 ''q1a'' ''  '' sampleState sampleStore) =
     sampleStore \<and>
   \<not> blank ''I was there'' \<and>
   ready sampleState \<noteq> None \<and>
   aiQuestionsCol sampleStore ''q1a'' = Some sampleQuestion \<and>
   aiQuestionsCol (remote (handleAnswerAIQuestion sampleRemote 400 ''q1a'' ''I was there''
                             sampleState sampleStore)) ''q1a'' =
     Some (sampleQuestion\<lparr>answered := True, answer := Some ''I was there'',
                          answeredAt := Some 400\<rparr>) \<and>
   answered (sampleQuestion\<lparr>answered := True, answer := Some ''I was there'',
                          answeredAt := Some 400\<rparr>) \<and>
   answer (sampleQuestion\<lparr>answered := True, answer := Some ''I was there'',
                          answeredAt := Some 400\<rparr>) \<noteq> None"
proof -
  have 1: "blank ''  ''" "\<not> blank ''I was there''"
    by (simp_all add: blank_def isWhiteSpace_def)
  have 2: "ready sampleState \<noteq> None"
    by (simp add: ready_def sampleState_def)
  have 3: "aiQuestionsCol sampleStore ''q1a'' = Some sampleQuestion"
    by (simp add: sampleStore_def)
  have 4: "rejects sampleRemote c = None" for c
    by (simp add: sampleRemote_def)
  have 5: "\<not> answered sampleQuestion"
    by (simp add: sampleQuestion_def)
  from handleAnswerAIQuestion_blank_or_answered
         [where answerContent = "''  ''" and R = sampleRemote and now = 400
            and questionId = "''q1a''" and s = sampleState and st = sampleStore
            and q = sampleQuestion and i = "''q1a''" and q' = sampleQuestion]
       handleAnswerAIQuestion_blank_or_answered
         [where answerContent = "''I was there''" and R = sampleRemote and now = 400
            and questionId = "''q1a''" and s = sampleState and st = sampleStore
            and q = sampleQuestion and i = "''q1a''"
            and q' = "sampleQuestion\<lparr>answered := True, answer := Some ''I was there'',
                          answeredAt := Some 400\<rparr>"]
       1 2 3 4 5
  show ?thesis by simp
qed

section \<open>Generating questions\<close>

lemma question_ids_differ: "''q'' @ digits t1 @ ''a'' \<noteq> ''q'' @ digits t2 @ ''b''"
proof
  assume "''q'' @ digits t1 @ ''a'' = ''q'' @ digits t2 @ ''b''"
  then have "last (''q'' @ digits t1 @ ''a'') = last (''q'' @ digits t2 @ ''b'')"
    by (rule arg_cong)
  then show False by simp
qed

lemma setDocs_two_accepted:
  assumes "rejects R (SetDocQuestion (question_id q1) q1) = None"
    and "rejects R (SetDocQuestion (question_id q2) q2) = None"
  shows "setDocs R st [q1, q2] =
     (None,
      st\<lparr>aiQuestionsCol := (aiQuestionsCol st)(question_id q1 \<mapsto> q1, question_id q2 \<mapsto> q2)\<rparr>,
      [SetDocQuestion (question_id q1) q1, SetDocQuestion (question_id q2) q2])"
  using assms by (simp add: remoteCall_accepted)

text \<open>
  C7. For every year, and whatever the two readings of the clock are (equal or not),
  exactly two questions are produced, both with \<open>answered = false\<close> and no related
  entry, with the ids \<open>q<time>a\<close> and \<open>q<time>b\<close>, which differ. When the database is ready
  and the store accepts the calls, both are written, each under its id.
\<close>

theorem generateAIQuestionsForYear_two_questions:
  "length (newQuestions t1 t2 yr) = 2 \<and>
   map answered (newQuestions t1 t2 yr) = [False, False] \<and>
   map relatedEntry (newQuestions t1 t2 yr) = [None, None] \<and>
   map question_id (newQuestions t1 t2 yr) = [''q'' @ digits t1 @ ''a'', ''q'' @ digits t2 @ ''b''] \<and>
   distinct (map question_id (newQuestions t1 t2 yr)) \<and>
   (ready s \<noteq> None \<and>
    (\<forall>q \<in> set (newQuestions t1 t2 yr). rejects R (SetDocQuestion (question_id q) q) = None) \<longrightarrow>
      calls (generateAIQuestionsForYear R t1 t2 yr s st) =
        map (\<lambda>q. SetDocQuestion (question_id q) q) (newQuestions t1 t2 yr) \<and>
      (\<forall>q \<in> set (newQuestions t1 t2 yr).
         aiQuestionsCol (remote (generateAIQuestionsForYear R t1 t2 yr s st)) (question_id q) =
           Some q))"
proof (intro conjI impI)
  show "distinct (map question_id (newQuestions t1 t2 yr))"
    using question_ids_differ [of t1 t2] by (simp add: newQuestions_def)
next
  assume a: "ready s \<noteq> None \<and>
    (\<forall>q \<in> set (newQuestions t1 t2 yr). rejects R (SetDocQuestion (question_id q) q) = None)"
  then obtain uid where u: "ready s = Some uid" by auto
  obtain q1 q2 where qs: "newQuestions t1 t2 yr = [q1, q2]"
    by (simp add: newQuestions_def)
  have ne: "question_id q1 \<noteq> question_id q2"
    using qs question_ids_differ [of t1 t2] by (auto simp: newQuestions_def)
  from a qs have acc: "rejects R (SetDocQuestion (question_id q1) q1) = None"
    "rejects R (SetDocQuestion (question_id q2) q2) = None"
    by simp_all
  have eq: "generateAIQuestionsForYear R t1 t2 yr s st =
     \<lparr>ui = showUserFeedback (''New AI questions generated for '' @ showInt yr @ ''!'')
             ''success'' s,
      remote = st\<lparr>aiQuestionsCol :=
                 (aiQuestionsCol st)(question_id q1 \<mapsto> q1, question_id q2 \<mapsto> q2)\<rparr>,
      calls = [SetDocQuestion (question_id q1) q1, SetDocQuestion (question_id q2) q2]\<rparr>"
    unfolding generateAIQuestionsForYear_def qs setDocs_two_accepted [OF acc] using u by simp
  show "calls (generateAIQuestionsForYear R t1 t2 yr s st) =
        map (\<lambda>q. SetDocQuestion (question_id q) q) (newQuestions t1 t2 yr)"
    by (simp add: eq qs)
  show "\<forall>q \<in> set (newQuestions t1 t2 yr).
         aiQuestionsCol (remote (generateAIQuestionsForYear R t1 t2 yr s st)) (question_id q) =
           Some q"
    using ne by (simp add: eq qs)
qed (simp_all add: newQuestions_def)

text \<open>The theorem for two questions generated in the same millisecond.\<close>

theorem generateAIQuestionsForYear_two_questions_witness:
  "ready sampleState \<noteq> None \<and>
   map (\<lambda>q. rejects sampleRemote (SetDocQuestion (question_id q) q))
     (newQuestions 1700000000000 1700000000000 2015) = [None, None] \<and>
   map question_id (newQuestions 1700000000000 1700000000000 2015) =
     [''q1700000000000a'', ''q1700000000000b''] \<and>
   calls (generateAIQuestionsForYear sampleRemote 1700000000000 1700000000000 2015
            sampleState sampleStore) =
     map (\<lambda>q. SetDocQuestion (question_id q) q)
       (newQuestions 1700000000000 1700000000000 2015) \<and>
   map (aiQuestionsCol (remote (generateAIQuestionsForYear sampleRemote 1700000000000
                                  1700000000000 2015 sampleState sampleStore)))
     [''q1700000000000a'', ''q1700000000000b''] =
     map Some (newQuestions 1700000000000 1700000000000 2015)"
proof -
  have 1: "ready sampleState \<noteq> None"
    by (simp add: ready_def sampleState_def)
  have 2: "rejects sampleRemote c = None" for c
    by (simp add: sampleRemote_def)
  have 3: "digits 1700000000000 = ''1700000000000''"
    by (simp add: digits.simps)
  have 4: "length (newQuestions 1700000000000 1700000000000 2015) = 2"
    by (simp add: newQuestions_def)
  have 5: "map question_id (newQuestions 1700000000000 1700000000000 2015) =
     [''q1700000000000a'', ''q1700000000000b'']"
    by (simp add: newQuestions_def 3)
  from generateAIQuestionsForYear_two_questions
         [where ?t1.0 = 1700000000000 and ?t2.0 = 1700000000000 and yr = 2015
            and s = sampleState and R = sampleRemote and st = sampleStore]
       1 2
  have c: "calls (generateAIQuestionsForYear sampleRemote 1700000000000 1700000000000 2015
            sampleState sampleStore) =
     map (\<lambda>q. SetDocQuestion (question_id q) q)
       (newQuestions 1700000000000 1700000000000 2015)"
    and w: "\<forall>q \<in> set (newQuestions 1700000000000 1700000000000 2015).
      aiQuestionsCol (remote (generateAIQuestionsForYear sampleRemote 1700000000000
                                1700000000000 2015 sampleState sampleStore)) (question_id q) =
        Some q"
    by simp_all
  from w have "map (\<lambda>q. aiQuestionsCol (remote (generateAIQuestionsForYear sampleRemote
                  1700000000000 1700000000000 2015 sampleState sampleStore)) (question_id q))
       (newQuestions 1700000000000 1700000000000 2015) =
     map Some (newQuestions 1700000000000 1700000000000 2015)"
    by simp
  then have "map (aiQuestionsCol (remote (generateAIQuestionsForYear sampleRemote
                  1700000000000 1700000000000 2015 sampleState sampleStore)))
       (map question_id (newQuestions 1700000000000 1700000000000 2015)) =
     map Some (newQuestions 1700000000000 1700000000000 2015)"
    by (simp add: comp_def)
  moreover have "map (\<lambda>q. rejects sampleRemote (SetDocQuestion (question_id q) q))
     (newQuestions 1700000000000 1700000000000 2015) = [None, None]"
    by (simp add: newQuestions_def 2)
  ultimately show ?thesis using 1 5 c
    by simp
qed

section \<open>Creating a photo request and simulating a response\<close>

lemma requestHistoricalPhotos_calls:
  "calls (requestHistoricalPhotos R now loc timeframe description s st) =
     (case ready s of
        None \<Rightarrow> []
      | Some uid \<Rightarrow>
          [AddDocPhotoRequest
             \<lparr>request_location = loc, request_timeframe = timeframe,
              request_description = description, status = ''pending'',
              responses = 0, requestedAt = now\<rparr>])"
  by (simp add: requestHistoricalPhotos_def databaseNotReady_def Let_def
      split: option.splits sum.splits)

text \<open>
  C8. A photo request is created with status \<open>pending\<close> and 0 responses: this is the
  document stored when the store accepts the call, and the only kind of call made.
  Simulating a response sets the status of the request of that id to \<open>found\<close> and adds
  exactly 1 to its responses in the in-memory list, leaves the other requests as they
  are, and makes no call to the remote store, which stays as it was.
\<close>

theorem photo_request_pending_then_found:
  "(ready s \<noteq> None \<and>
    rejects R (AddDocPhotoRequest
       \<lparr>request_location = loc, request_timeframe = timeframe,
        request_description = description, status = ''pending'',
        responses = 0, requestedAt = now\<rparr>) = None \<longrightarrow>
      photoRequestsCol (remote (requestHistoricalPhotos R now loc timeframe description s st))
        (autoId R) =
        Some \<lparr>request_location = loc, request_timeframe = timeframe,
              request_description = description, status = ''pending'',
              responses = 0, requestedAt = now\<rparr>) \<and>
   (\<forall>c \<in> set (calls (requestHistoricalPhotos R now loc timeframe description s st)).
      \<exists>d. c = AddDocPhotoRequest d \<and> status d = ''pending'' \<and> responses d = 0) \<and>
   remote (perform R (SimulateResponse request) s st) = st \<and>
   calls (perform R (SimulateResponse request) s st) = [] \<and>
   length (photoRequests (ui (perform R (SimulateResponse request) s st))) =
     length (photoRequests s) \<and>
   (\<forall>k < length (photoRequests s).
      photoRequests (ui (perform R (SimulateResponse request) s st)) ! k =
        (if request_id (photoRequests s ! k) = request_id request
         then (photoRequests s ! k)
                \<lparr>status := ''found'', responses := responses (photoRequests s ! k) + 1\<rparr>
         else photoRequests s ! k))"
proof (intro conjI impI allI ballI)
  assume a: "ready s \<noteq> None \<and>
    rejects R (AddDocPhotoRequest
       \<lparr>request_location = loc, request_timeframe = timeframe,
        request_description = description, status = ''pending'',
        responses = 0, requestedAt = now\<rparr>) = None"
  then obtain uid where u: "ready s = Some uid" by auto
  from a u show "photoRequestsCol (remote (requestHistoricalPhotos R now loc timeframe description s st))
        (autoId R) =
        Some \<lparr>request_location = loc, request_timeframe = timeframe,
              request_description = description, status = ''pending'',
              responses = 0, requestedAt = now\<rparr>"
    by (simp add: requestHistoricalPhotos_def remoteCall_accepted)
next
  fix c assume "c \<in> set (calls (requestHistoricalPhotos R now loc timeframe description s st))"
  then show "\<exists>d. c = AddDocPhotoRequest d \<and> status d = ''pending'' \<and> responses d = 0"
    by (cases "ready s") (simp_all add: requestHistoricalPhotos_calls)
qed (simp_all add: simulateResponse_def showUserFeedback_def)

text \<open>The theorem for a new request and for the pending request of the sample state.\<close>

theorem photo_request_pending_then_found_witness:
  "ready sampleState \<noteq> None \<and>
   rejects sampleRemote (AddDocPhotoRequest
       \<lparr>request_location = Some ''Orlando'', request_timeframe = Some ''2010s'',
        request_description = Some ''School'', status = ''pending'',
        responses = 0, requestedAt = 500\<rparr>) = None \<and>
   photoRequestsCol (remote (requestHistoricalPhotos sampleRemote 500 (Some ''Orlando'')
       (Some ''2010s'') (Some ''School'') sampleState sampleStore)) ''doc1'' =
     Some \<lparr>request_location = Some ''Orlando'', request_timeframe = Some ''2010s'',
           request_description = Some ''School'', status = ''pending'',
           responses = 0, requestedAt = 500\<rparr> \<and>
   calls (requestHistoricalPhotos sampleRemote 500 (Some ''Orlando'')
       (Some ''2010s'') (Some ''School'') sampleState sampleStore) \<noteq> [] \<and>
   (0::nat) < length (photoRequests sampleState) \<and>
   status (photoRequests sampleState ! 0) = ''pending'' \<and>
   responses (photoRequests sampleState ! 0) = 0 \<and>
   photoRequests (ui (perform sampleRemote (SimulateResponse samplePhotoRequest)
                        sampleState sampleStore)) ! 0 =
     samplePhotoRequest\<lparr>status := ''found'', responses := 1\<rparr> \<and>
   calls (perform sampleRemote (SimulateResponse samplePhotoRequest) sampleState sampleStore) = []"
proof -
  have 1: "ready sampleState \<noteq> None"
    by (simp add: ready_def sampleState_def)
  have 2: "rejects sampleRemote c = None" for c
    by (simp add: sampleRemote_def)
  have 3: "autoId sampleRemote = ''doc1''"
    by (simp add: sampleRemote_def)
  have 4: "photoRequests sampleState = [samplePhotoRequest]"
    by (simp add: sampleState_def)
  have 5: "status samplePhotoRequest = ''pending''" "responses samplePhotoRequest = 0"
    by (simp_all add: samplePhotoRequest_def)
  have 6: "calls (requestHistoricalPhotos sampleRemote 500 (Some ''Orlando'')
       (Some ''2010s'') (Some ''School'') sampleState sampleStore) \<noteq> []"
    by (simp add: requestHistoricalPhotos_def ready_def sampleState_def remoteCall_def
        sampleRemote_def)
  from photo_request_pending_then_found
         [where s = sampleState and R = sampleRemote and st = sampleStore and now = 500
            and loc = "Some ''Orlando''" and timeframe = "Some ''2010s''"
            and description = "Some ''School''" and request = samplePhotoRequest]
       1 2 3 4 5 6
  show ?thesis by simp
qed

section \<open>The in-memory lists\<close>

lemma mirrors_showUserFeedback: "mirrors (showUserFeedback m t s) = mirrors s"
  by (simp add: mirrors_def showUserFeedback_def)

lemma unchanged_showUserFeedback: "unchangedApartFromFeedback s (showUserFeedback m t s)"
  by (simp add: unchangedApartFromFeedback_def showUserFeedback_def)

lemma unchanged_refl: "unchangedApartFromFeedback s s"
  by (simp add: unchangedApartFromFeedback_def)

lemma handleSaveEntry_local:
  "mirrors (ui (handleSaveEntry R now s st)) = mirrors s \<and>
   (failed (handleSaveEntry R now s st) \<longrightarrow>
      unchangedApartFromFeedback s (ui (handleSaveEntry R now s st)))"
  by (simp add: handleSaveEntry_def databaseNotReady_def Let_def mirrors_showUserFeedback
      unchanged_showUserFeedback failed_def
      split: option.splits sum.splits)
     (simp add: mirrors_def showUserFeedback_def)

lemma handleDeleteEntry_local:
  "mirrors (ui (handleDeleteEntry R confirmed entryId s st)) = mirrors s \<and>
   (failed (handleDeleteEntry R confirmed entryId s st) \<longrightarrow>
      unchangedApartFromFeedback s (ui (handleDeleteEntry R confirmed entryId s st)))"
  by (simp add: handleDeleteEntry_def databaseNotReady_def Let_def mirrors_showUserFeedback
      unchanged_showUserFeedback unchanged_refl
      split: option.splits sum.splits)

lemma handleAnswerAIQuestion_local:
  "mirrors (ui (handleAnswerAIQuestion R now questionId answerContent s st)) = mirrors s \<and>
   (failed (handleAnswerAIQuestion R now questionId answerContent s st) \<longrightarrow>
      unchangedApartFromFeedback s (ui (handleAnswerAIQuestion R now questionId answerContent s st)))"
  by (simp add: handleAnswerAIQuestion_def databaseNotReady_def Let_def mirrors_showUserFeedback
      unchanged_showUserFeedback
      split: option.splits sum.splits)

lemma generateAIQuestionsForYear_local:
  "mirrors (ui (generateAIQuestionsForYear R t1 t2 yr s st)) = mirrors s \<and>
   (failed (generateAIQuestionsForYear R t1 t2 yr s st) \<longrightarrow>
      unchangedApartFromFeedback s (ui (generateAIQuestionsForYear R t1 t2 yr s st)))"
  by (simp add: generateAIQuestionsForYear_def databaseNotReady_def mirrors_showUserFeedback
      unchanged_showUserFeedback
      split: option.splits prod.splits)

lemma requestHistoricalPhotos_local:
  "mirrors (ui (requestHistoricalPhotos R now loc timeframe description s st)) = mirrors s \<and>
   (failed (requestHistoricalPhotos R now loc timeframe description s st) \<longrightarrow>
      unchangedApartFromFeedback s
        (ui (requestHistoricalPhotos R now loc timeframe description s st)))"
  by (simp add: requestHistoricalPhotos_def databaseNotReady_def Let_def mirrors_showUserFeedback
      unchanged_showUserFeedback
      split: option.splits sum.splits)

lemma handleAddCollaborativeComment_local:
  "mirrors (ui (handleAddCollaborativeComment R t1 t2 entryId commentAuthor contentText s st)) =
     mirrors s \<and>
   (failed (handleAddCollaborativeComment R t1 t2 entryId commentAuthor contentText s st) \<longrightarrow>
      unchangedApartFromFeedback s
        (ui (handleAddCollaborativeComment R t1 t2 entryId commentAuthor contentText s st)))"
  by (simp add: handleAddCollaborativeComment_def databaseNotReady_def Let_def
      mirrors_showUserFeedback unchanged_showUserFeedback unchanged_refl
      split: option.splits sum.splits)

lemma handleLikeCollaborativeComment_local:
  "mirrors (ui (handleLikeCollaborativeComment R entryId commentId s st)) = mirrors s \<and>
   (failed (handleLikeCollaborativeComment R entryId commentId s st) \<longrightarrow>
      unchangedApartFromFeedback s (ui (handleLikeCollaborativeComment R entryId commentId s st)))"
  by (simp add: handleLikeCollaborativeComment_def databaseNotReady_def Let_def
      mirrors_showUserFeedback unchanged_showUserFeedback unchanged_refl
      split: option.splits sum.splits)

lemma store_action_local:
  assumes "callsStore a"
  shows "mirrors (ui (perform R a s st)) = mirrors s \<and>
    (failed (perform R a s st) \<longrightarrow>
       unchangedApartFromFeedback (stateAtStoreCall a s) (ui (perform R a s st)))"
proof (cases a)
  case (SaveEntry now)
  with handleSaveEntry_local [of R now s st] show ?thesis by simp
next
  case (LikeCollaborativeComment entryId commentId)
  with handleLikeCollaborativeComment_local [of R entryId commentId s st] show ?thesis by simp
next
  case (CommentKeyDown key t1 t2 entryId v)
  with handleAddCollaborativeComment_local [of R t1 t2 entryId "''Guest User''" v s st]
  show ?thesis by (simp add: unchanged_refl)
next
  case (DeleteEntry confirmed entryId)
  with handleDeleteEntry_local [of R confirmed entryId s st] show ?thesis by simp
next
  case (RememberMore t1 t2 yr)
  with generateAIQuestionsForYear_local [of R t1 t2 yr "s\<lparr>selectedTimelineYear := Some yr\<rparr>" st]
  show ?thesis by (simp add: mirrors_def)
next
  case (AnswerAIQuestion now questionId answerContent)
  with handleAnswerAIQuestion_local [of R now questionId answerContent s st] show ?thesis by simp
next
  case (RequestHistoricalPhotos now loc timeframe description)
  with requestHistoricalPhotos_local [of R now loc timeframe description s st] show ?thesis
    by simp
qed (use assms in simp_all)

lemma editForm_mirrors: "mirrors (editForm e s) = mirrors s"
  by (cases e) (simp_all add: mirrors_def showUserFeedback_def)

lemma local_action_mirrors:
  assumes "\<not> callsStore a"
  shows "entries (ui (perform R a s st)) = entries s \<and>
    timelineEvents (ui (perform R a s st)) = timelineEvents s \<and>
    aiQuestions (ui (perform R a s st)) = aiQuestions s \<and>
    (\<not> isSimulateResponse (UserAction a) \<longrightarrow>
       photoRequests (ui (perform R a s st)) = photoRequests s)"
proof (cases a)
  case (OpenEntryModal today entryToEdit)
  then show ?thesis by (cases entryToEdit) (simp_all add: openEntryModal_def)
next
  case (EditForm e)
  with editForm_mirrors [of e s] show ?thesis by (simp add: mirrors_def)
next
  case (SimulateResponse request)
  then show ?thesis by (simp add: simulateResponse_def showUserFeedback_def)
qed (use assms in simp_all)

lemma action_mirrors:
  "entries (ui (perform R a s st)) = entries s \<and>
   timelineEvents (ui (perform R a s st)) = timelineEvents s \<and>
   aiQuestions (ui (perform R a s st)) = aiQuestions s \<and>
   (\<not> isSimulateResponse (UserAction a) \<longrightarrow>
      photoRequests (ui (perform R a s st)) = photoRequests s)"
proof (cases "callsStore a")
  case True
  from store_action_local [OF True, of R s st] show ?thesis by (simp add: mirrors_def)
next
  case False
  then show ?thesis by (rule local_action_mirrors)
qed

lemma render_mirrors:
  assumes "conformingSort arraySort"
  shows "entries (render arraySort s) = entries s \<and>
    aiQuestions (render arraySort s) = aiQuestions s \<and>
    photoRequests (render arraySort s) = photoRequests s \<and>
    mset (timelineEvents (render arraySort s)) = mset (timelineEvents s)"
  using assms by (simp add: render_def conformingSort_def)

lemma onSnapshot_sets_the_mirror:
  "entries (onSnapshot (EntriesSnapshot es) s) = es"
  "timelineEvents (onSnapshot (TimelineEventsSnapshot ts) s) = ts"
  "aiQuestions (onSnapshot (AiQuestionsSnapshot qs) s) = qs"
  "photoRequests (onSnapshot (PhotoRequestsSnapshot ps) s) = ps"
  by simp_all

text \<open>
  C9 (as amended). Whatever happens in the component other than a snapshot (an action
  of the user, a render, the feedback timer, a step of the start) leaves the in-memory
  lists of entries and of questions as they are and leaves the timeline list with the
  same elements, each as often as before; it leaves the list of photo requests as it
  is too, unless it is the Simulate Response action, the one local action that
  changes a list. No action that goes to the remote store changes any of the four
  lists, whether it succeeds or fails. After a failed action of that kind the
  application state is as it was when the store handler was called, apart from the
  feedback message shown; "Remember more" has set the selected year by then.
\<close>

theorem mirrors_only_from_snapshots:
  assumes "conformingSort arraySort"
  shows "(\<not> isSnapshot ev \<longrightarrow>
       entries (ui (step arraySort R ev s st)) = entries s \<and>
       aiQuestions (ui (step arraySort R ev s st)) = aiQuestions s \<and>
       mset (timelineEvents (ui (step arraySort R ev s st))) = mset (timelineEvents s) \<and>
       (\<not> isSimulateResponse ev \<longrightarrow>
          photoRequests (ui (step arraySort R ev s st)) = photoRequests s)) \<and>
     (callsStore a \<longrightarrow> mirrors (ui (perform R a s st)) = mirrors s) \<and>
     (callsStore a \<and> failed (perform R a s st) \<longrightarrow>
        unchangedApartFromFeedback (stateAtStoreCall a s) (ui (perform R a s st)))"
proof (intro conjI impI)
  assume n: "\<not> isSnapshot ev"
  have all: "entries (ui (step arraySort R ev s st)) = entries s \<and>
       aiQuestions (ui (step arraySort R ev s st)) = aiQuestions s \<and>
       mset (timelineEvents (ui (step arraySort R ev s st))) = mset (timelineEvents s) \<and>
       (\<not> isSimulateResponse ev \<longrightarrow>
          photoRequests (ui (step arraySort R ev s st)) = photoRequests s)"
  proof (cases ev)
    case (UserAction b)
    with action_mirrors [of R b s st] show ?thesis by simp
  next
    case Render
    with render_mirrors [OF assms, of s] show ?thesis by simp
  next
    case (Snapshot d)
    with n show ?thesis by simp
  next
    case (SignInAttempted authError)
    then show ?thesis by (cases authError) simp_all
  qed simp_all
  from all show "entries (ui (step arraySort R ev s st)) = entries s" by simp
  from all show "aiQuestions (ui (step arraySort R ev s st)) = aiQuestions s" by simp
  from all show "mset (timelineEvents (ui (step arraySort R ev s st))) = mset (timelineEvents s)"
    by simp
  from all show "photoRequests (ui (step arraySort R ev s st)) = photoRequests s"
    if "\<not> isSimulateResponse ev" using that by simp
next
  assume "callsStore a"
  from store_action_local [OF this, of R s st]
  show "mirrors (ui (perform R a s st)) = mirrors s" by simp
next
  assume "callsStore a \<and> failed (perform R a s st)"
  with store_action_local [of a R s st]
  show "unchangedApartFromFeedback (stateAtStoreCall a s) (ui (perform R a s st))" by simp
qed

text \<open>
  The theorem for a render of the timeline view, and for a save that the remote store
  refuses.
\<close>

theorem mirrors_only_from_snapshots_witness:
  "conformingSort (insertionSort :: timeline_event comparefn \<Rightarrow> _) \<and>
   \<not> isSnapshot Render \<and>
   \<not> isSimulateResponse Render \<and>
   entries (ui (step insertionSort failingRemote Render sampleState sampleStore)) =
     entries sampleState \<and>
   mset (timelineEvents (ui (step insertionSort failingRemote Render sampleState sampleStore))) =
     mset (timelineEvents sampleState) \<and>
   timelineEvents (ui (step insertionSort failingRemote Render sampleState sampleStore)) =
     rev (timelineEvents sampleState) \<and>
   photoRequests (ui (step insertionSort failingRemote Render sampleState sampleStore)) =
     photoRequests sampleState \<and>
   callsStore (SaveEntry 80) \<and>
   failed (perform failingRemote (SaveEntry 80) sampleState sampleStore) \<and>
   calls (perform failingRemote (SaveEntry 80) sampleState sampleStore) \<noteq> [] \<and>
   mirrors (ui (perform failingRemote (SaveEntry 80) sampleState sampleStore)) =
     mirrors sampleState \<and>
   unchangedApartFromFeedback sampleState
     (ui (perform failingRemote (SaveEntry 80) sampleState sampleStore))"
proof -
  have 1: "conformingSort (insertionSort :: timeline_event comparefn \<Rightarrow> _)"
    by (rule conformingSort_insertionSort)
  have 2: "\<not> isSnapshot Render" "\<not> isSimulateResponse Render" "callsStore (SaveEntry 80)"
    by simp_all
  have 3: "failed (perform failingRemote (SaveEntry 80) sampleState sampleStore)"
    by (simp add: handleSaveEntry_def ready_def sampleState_def sampleForm_def remoteCall_def
        failingRemote_def failed_def showUserFeedback_def)
  have 4: "calls (perform failingRemote (SaveEntry 80) sampleState sampleStore) \<noteq> []"
    by (simp add: handleSaveEntry_def ready_def sampleState_def sampleForm_def remoteCall_def
        failingRemote_def)
  have 5: "timelineEvents (ui (step insertionSort failingRemote Render sampleState sampleStore)) =
     rev (timelineEvents sampleState)"
    by (simp add: render_def sampleState_def sampleTimeline_def insertionSort_def
        sortCompare_def compareYears_def)
  from mirrors_only_from_snapshots
         [OF 1, where ev = Render and a = "SaveEntry 80" and R = failingRemote
            and s = sampleState and st = sampleStore]
       1 2 3 4 5
  show ?thesis by simp
qed

text \<open>
  Simulating a response replaces the in-memory list of photo requests without any
  snapshot and without any call to the store.
\<close>

theorem simulateResponse_changes_photoRequests_counterexample:
  "photoRequests (ui (perform sampleRemote (SimulateResponse samplePhotoRequest)
                        sampleState sampleStore)) =
     [samplePhotoRequest\<lparr>status := ''found'', responses := 1\<rparr>] \<and>
   photoRequests sampleState = [samplePhotoRequest] \<and>
   mirrors (ui (perform sampleRemote (SimulateResponse samplePhotoRequest)
                  sampleState sampleStore)) \<noteq> mirrors sampleState \<and>
   calls (perform sampleRemote (SimulateResponse samplePhotoRequest) sampleState sampleStore) = []"
  by (simp add: simulateResponse_def showUserFeedback_def sampleState_def samplePhotoRequest_def
      mirrors_def)

text \<open>
  A "Remember more" click whose store call fails has set the selected year all the
  same.
\<close>

lemma rememberMore_failed_sets_selected_year:
  "failed (perform failingRemote (RememberMore 1700000000000 1700000000000 2015)
             sampleState sampleStore) \<and>
   selectedTimelineYear sampleState = None \<and>
   selectedTimelineYear
     (ui (perform failingRemote (RememberMore 1700000000000 1700000000000 2015)
            sampleState sampleStore)) = Some 2015"
  by (simp add: generateAIQuestionsForYear_def ready_def sampleState_def newQuestions_def
      remoteCall_def failingRemote_def failed_def showUserFeedback_def)

end
